theory Spec2Isabelle
  imports Main "HOL-Library.Word" "HOL-Library.Char_ord" "HOL-Library.List_Lexorder"
    "HOL-Library.AList"
begin

unbundle bit_operations_syntax

section \<open>Machine types, errors and constants\<close>

type_synonym byte = "8 word"
type_synonym uint16 = "16 word"
type_synonym uint32 = "32 word"
type_synonym uint64 = "64 word"

text \<open>
  Go strings are byte sequences; \<^typ>\<open>string\<close> is a list of 8-bit characters.
  A run-time panic (index or slice out of range, failed type assertion, \<open>rand.Intn\<close>
  of a non-positive bound) is the error value \<open>Panic\<close>; the other constructors are the
  error values the Go functions return.
\<close>

datatype error =
    Panic
  | ErrSoa
  | ErrOutOfZone string
  | ErrBadNetmask
  | ErrBadFamily
  | ErrHex
  | ErrSignature

definition backslash :: char where
  "backslash = CHR 0x5C"

text \<open>
  \<open>strings.ToLower\<close> of the Go standard library. On a string of ASCII bytes it maps
  the letters \<open>A\<close> to \<open>Z\<close> to \<open>a\<close> to \<open>z\<close> and keeps every other byte. On a string
  that holds a byte from 0x80 on it works rune by rune, through the Unicode case tables,
  and rewrites invalid UTF-8; that part of the library function is the parameter \<open>U\<close>,
  which every function that lowercases a name takes as its first argument.
\<close>

definition lower_byte :: "char \<Rightarrow> char" where
  "lower_byte c =
     (if CHR ''A'' \<le> c \<and> c \<le> CHR ''Z'' then char_of (of_char c + (32::nat)) else c)"

definition is_ascii :: "string \<Rightarrow> bool" where
  "is_ascii s \<longleftrightarrow> list_all (\<lambda>c. c < CHR 0x80) s"

definition ToLower :: "(string \<Rightarrow> string) \<Rightarrow> string \<Rightarrow> string" where
  "ToLower U s = (if is_ascii s then map lower_byte s else U s)"

section \<open>The canonical-name transform (zone.go, toRadixName)\<close>

text \<open>
  The loop of \<open>toRadixName\<close>: \<open>i\<close> is the loop index, \<open>s\<close> the output built so far,
  \<open>lastdot\<close> the start of the current label, \<open>lastbyte\<close> and \<open>lastlastbyte\<close> the two
  bytes seen before \<open>d[i]\<close>. On a label boundary the Go code executes \<open>continue\<close>, so the
  two remembered bytes are not updated there.
\<close>

function toRadixName_loop ::
  "string \<Rightarrow> nat \<Rightarrow> string \<Rightarrow> nat \<Rightarrow> char \<Rightarrow> char \<Rightarrow> string" where
  "toRadixName_loop d i s lastdot lastbyte lastlastbyte =
     (if i < length d then
        (if d ! i = CHR ''.'' \<and>
            (lastbyte \<noteq> backslash \<or> (lastbyte = backslash \<and> lastlastbyte = backslash))
         then toRadixName_loop d (i + 1)
                (take (i - lastdot) (drop lastdot d) @ ''.'' @ s) (i + 1)
                lastbyte lastlastbyte
         else toRadixName_loop d (i + 1) s lastdot (d ! i) lastbyte)
      else s)"
  by pat_completeness auto
termination
  by (relation "measure (\<lambda>(d, i, s, lastdot, lastbyte, lastlastbyte). length d - i)") auto

text \<open>
  \<open>toRadixName\<close>. The final slice \<open>s[:len(s)-1]\<close> panics when \<open>s\<close> is empty, that is
  when the loop found no label boundary.
\<close>

definition toRadixName :: "(string \<Rightarrow> string) \<Rightarrow> string \<Rightarrow> error + string" where
  "toRadixName U d =
     (if d = [] \<or> d = ''.'' then Inr ''.''
      else
        let d' = (if d ! (length d - 1) \<noteq> CHR ''.'' then d @ ''.'' else d);
            s = toRadixName_loop d' 0 [] 0 (CHR 0x00) (CHR 0x00)
        in if s = [] then Inl Panic
           else Inr (''.'' @ ToLower U (take (length s - 1) s)))"

subsection \<open>DNSSEC canonical order, as the specification words it\<close>

text \<open>
  The specification's reference order: a name is cut into labels at its unescaped dots
  (a backslash protects exactly the byte after it, so \<open>\\.\<close> stays inside the label and
  \<open>\\\\\<close> is a literal backslash protecting nothing further), the labels are lowercased
  ("case-insensitive ASCII only (bytes \<open>\<ge>\<close> 0x80 are left unchanged)") and reversed, and
  two names compare as their label sequences do, lexicographically, each label as a
  byte string.
\<close>

fun canonical_labels_from :: "string \<Rightarrow> string \<Rightarrow> string list" where
  "canonical_labels_from cur [] = (if cur = [] then [] else [cur])"
| "canonical_labels_from cur [c] =
     (if c = CHR ''.'' then [cur] else [cur @ [c]])"
| "canonical_labels_from cur (c # e # es) =
     (if c = backslash then canonical_labels_from (cur @ [c, e]) es
      else if c = CHR ''.'' then cur # canonical_labels_from [] (e # es)
      else canonical_labels_from (cur @ [c]) (e # es))"

definition canonical_labels :: "string \<Rightarrow> string list" where
  "canonical_labels n = (if n = ''.'' then [] else canonical_labels_from [] n)"

definition canonical_key :: "string \<Rightarrow> string list" where
  "canonical_key n = rev (map (map lower_byte) (canonical_labels n))"

definition canonical_less :: "string \<Rightarrow> string \<Rightarrow> bool" where
  "canonical_less a b \<longleftrightarrow> canonical_key a < canonical_key b"

section \<open>Resource records and zone nodes\<close>

text \<open>
  The RR types, structs and constants below are declared in other files of the library
  (types.go, dnssec.go); the fields kept are the ones that zone.go reads or writes, and
  the numeric values are those of the DNS protocol.
  The header has the five fields of the literal
  \<open>RR_Header{node.Name, TypeNSEC, ClassINET, config.Minttl, 0}\<close> in zone.go.
\<close>

definition TypeNS :: uint16 where "TypeNS = 2"
definition TypeSOA :: uint16 where "TypeSOA = 6"
definition TypeDS :: uint16 where "TypeDS = 43"
definition TypeRRSIG :: uint16 where "TypeRRSIG = 46"
definition TypeNSEC :: uint16 where "TypeNSEC = 47"
definition TypeDNSKEY :: uint16 where "TypeDNSKEY = 48"
definition ClassINET :: uint16 where "ClassINET = 1"
definition SEP :: uint16 where "SEP = 1"

record RR_Header =
  Name :: string
  Rrtype :: uint16
  Class :: uint16
  Ttl :: uint32
  Rdlength :: uint16

record RRSIG =
  Hdr :: RR_Header
  TypeCovered :: uint16
  Algorithm :: byte
  Labels :: byte
  OrigTtl :: uint32
  Expiration :: uint32
  Inception :: uint32
  KeyTag :: uint16
  SignerName :: string
  Signature :: string

record DNSKEY =
  key_Hdr :: RR_Header
  Flags :: uint16
  Protocol :: byte
  key_Algorithm :: byte
  PublicKey :: string

text \<open>
  The interface \<open>RR\<close>: one constructor per dynamic type that zone.go tests with a type
  assertion, and \<open>RR_Other\<close> (with its rdata as an opaque string) for every other record
  type. A value stands for the record object itself: the Go code compares records by
  pointer (\<open>r == zr\<close>), the model by equality of values.
\<close>

datatype RR =
    RR_NSEC RR_Header string "uint16 list"
  | RR_RRSIG RRSIG
  | RR_DNSKEY DNSKEY
  | RR_DS RR_Header string
  | RR_SOA RR_Header uint32
  | RR_Other RR_Header string

fun Header :: "RR \<Rightarrow> RR_Header" where
  "Header (RR_NSEC h nd bm) = h"
| "Header (RR_RRSIG sg) = Hdr sg"
| "Header (RR_DNSKEY k) = key_Hdr k"
| "Header (RR_DS h d) = h"
| "Header (RR_SOA h m) = h"
| "Header (RR_Other h d) = h"

text \<open>
  Go maps keyed by the RR type are association lists with distinct keys; a loop
  \<open>for k, v := range m\<close> visits the entries in the order of the list (Go leaves the order
  open). Reading a missing key gives the nil slice, \<open>len(m)\<close> counts the keys.
\<close>

type_synonym 'v gomap = "(uint16 \<times> 'v list) list"

definition lookup :: "'v gomap \<Rightarrow> uint16 \<Rightarrow> 'v list" where
  "lookup m k = (case map_of m k of None \<Rightarrow> [] | Some v \<Rightarrow> v)"

definition haskey :: "'v gomap \<Rightarrow> uint16 \<Rightarrow> bool" where
  "haskey m k \<longleftrightarrow> map_of m k \<noteq> None"

record ZoneData =
  zd_Name :: string
  RR :: "RR gomap"
  Signatures :: "RRSIG gomap"
  NonAuth :: bool

definition NewZoneData :: "string \<Rightarrow> ZoneData" where
  "NewZoneData s = \<lparr>zd_Name = s, RR = [], Signatures = [], NonAuth = False\<rparr>"

section \<open>The zone container (zone.go)\<close>

text \<open>
  The radix tree of the external package \<open>radix\<close> is an association list from radix key
  to node, with distinct keys. \<open>ModTime\<close> is a time in nanoseconds since the Unix epoch;
  every mutator takes the reading of the clock (\<open>time.Now()\<close>) as its first argument.
  Locks are not modelled: each operation is taken as running alone.
\<close>

record Zone =
  Origin :: string
  olabels :: "string list"
  Wildcard :: int
  expired :: bool
  ModTime :: int
  Radix :: "(string \<times> ZoneData) list"

text \<open>
  Modelled from the spec: \<open>SplitLabels\<close> (labels.go, not among the sources) cuts a name
  into its labels, "a label boundary is an unescaped dot", the root having none.
\<close>

definition SplitLabels :: "string \<Rightarrow> string list" where
  "SplitLabels s = canonical_labels s"

text \<open>
  \<open>compareLabelsSlice\<close> counts the labels that \<open>l1\<close> and the labels of \<open>s2\<close> share, from
  the right; the loop over the two indices \<open>x1\<close>, \<open>x2\<close> is a recursion over the two
  reversed label lists.
\<close>

fun compareLabels_loop :: "string list \<Rightarrow> string list \<Rightarrow> nat" where
  "compareLabels_loop (x # xs) (y # ys) = (if x = y then 1 + compareLabels_loop xs ys else 0)"
| "compareLabels_loop xs ys = 0"

definition compareLabelsSlice :: "string list \<Rightarrow> string \<Rightarrow> nat" where
  "compareLabelsSlice l1 s2 = compareLabels_loop (rev l1) (rev (SplitLabels s2))"

definition isSubDomain :: "(string \<Rightarrow> string) \<Rightarrow> Zone \<Rightarrow> string \<Rightarrow> bool" where
  "isSubDomain U z child \<longleftrightarrow>
     compareLabelsSlice (olabels z) (ToLower U child) = length (olabels z)"

text \<open>
  The test \<open>len(name) > 1 && name[0] == '*' && name[1] == '.'\<close> of \<open>Insert\<close>, \<open>Remove\<close>
  and \<open>RemoveName\<close>.
\<close>

definition is_wildcard :: "string \<Rightarrow> bool" where
  "is_wildcard name \<longleftrightarrow> length name > 1 \<and> name ! 0 = CHR ''*'' \<and> name ! 1 = CHR ''.''"

text \<open>
  The \<open>switch\<close> on the RR type in \<open>Insert\<close>; the source has it twice, word for word, once
  for a new node and once for a node found. A record whose header says RRSIG but which is
  not an \<open>*RRSIG\<close> fails the type assertion.
\<close>

definition attach :: "string \<Rightarrow> RR \<Rightarrow> ZoneData \<Rightarrow> error + ZoneData" where
  "attach origin r zd =
     (let t = Rrtype (Header r) in
      if t = TypeRRSIG then
        (case r of
           RR_RRSIG sg \<Rightarrow>
             Inr (zd\<lparr>Signatures :=
                       AList.update (TypeCovered sg) (lookup (Signatures zd) (TypeCovered sg) @ [sg])
                         (Signatures zd)\<rparr>)
         | _ \<Rightarrow> Inl Panic)
      else
        (let zd1 = (if t = TypeNS \<and> Name (Header r) \<noteq> origin then zd\<lparr>NonAuth := True\<rparr> else zd)
         in Inr (zd1\<lparr>RR := AList.update t (lookup (RR zd1) t @ [r]) (RR zd1)\<rparr>)))"

definition Insert :: "(string \<Rightarrow> string) \<Rightarrow> int \<Rightarrow> Zone \<Rightarrow> RR \<Rightarrow> error + Zone" where
  "Insert U now z r =
     (let name = Name (Header r) in
      if \<not> isSubDomain U z name then Inl (ErrOutOfZone name)
      else
        (case toRadixName U name of
           Inl e \<Rightarrow> Inl e
         | Inr key \<Rightarrow>
             (let z1 = z\<lparr>ModTime := now\<rparr> in
              case map_of (Radix z1) key of
                None \<Rightarrow>
                  (let z2 = (if is_wildcard name then z1\<lparr>Wildcard := Wildcard z1 + 1\<rparr> else z1)
                   in case attach (Origin z) r (NewZoneData name) of
                        Inl e \<Rightarrow> Inl e
                      | Inr zd \<Rightarrow> Inr (z2\<lparr>Radix := AList.update key zd (Radix z2)\<rparr>))
              | Some zd0 \<Rightarrow>
                  (case attach (Origin z) r zd0 of
                     Inl e \<Rightarrow> Inl e
                   | Inr zd \<Rightarrow> Inr (z1\<lparr>Radix := AList.update key zd (Radix z1)\<rparr>)))))"

text \<open>
  The Go idiom
  \<open>for i, x := range xs { if P x { xs = append(xs[:i], xs[i+1:]...) } }\<close>
  of \<open>Remove\<close> and of the node signer. The range runs over the indices of the slice as it
  was at the start and reads each element from the shared backing array \<open>arr\<close> when its
  turn comes; a deletion moves the tail of the current slice (of length \<open>l\<close>) one place
  to the left inside that array and shortens the slice, and \<open>xs[i+1:]\<close> panics when
  \<open>i + 1\<close> exceeds the current length. The result is the array, the final length and
  whether anything was deleted.
\<close>

fun slice_del_loop ::
  "('a \<Rightarrow> bool) \<Rightarrow> nat list \<Rightarrow> 'a list \<Rightarrow> nat \<Rightarrow> bool \<Rightarrow> error + ('a list \<times> nat \<times> bool)" where
  "slice_del_loop P [] arr l rm = Inr (arr, l, rm)"
| "slice_del_loop P (i # is) arr l rm =
     (if P (arr ! i) then
        (if i + 1 \<le> l
         then slice_del_loop P is
                (take i arr @ drop (i + 1) (take l arr) @ drop (l - 1) arr) (l - 1) True
         else Inl Panic)
      else slice_del_loop P is arr l rm)"

definition range_delete :: "('a \<Rightarrow> bool) \<Rightarrow> 'a list \<Rightarrow> error + ('a list \<times> bool)" where
  "range_delete P xs =
     (case slice_del_loop P [0..<length xs] xs (length xs) False of
        Inl e \<Rightarrow> Inl e
      | Inr (arr, l, rm) \<Rightarrow> Inr (take l arr, rm))"

text \<open>
  The \<open>switch\<close> of \<open>Remove\<close>: the node after the deletions and the flag \<open>remove\<close>.
\<close>

definition remove_rr :: "RR \<Rightarrow> ZoneData \<Rightarrow> error + (ZoneData \<times> bool)" where
  "remove_rr r zd =
     (let t = Rrtype (Header r) in
      if t = TypeRRSIG then
        (case r of
           RR_RRSIG sg \<Rightarrow>
             (let sigtype = TypeCovered sg in
              case range_delete (\<lambda>zr. r = RR_RRSIG zr) (lookup (Signatures zd) sigtype) of
                Inl e \<Rightarrow> Inl e
              | Inr (xs, remove) \<Rightarrow>
                  if remove then
                    (if length xs = 0
                     then Inr (zd\<lparr>Signatures := AList.delete sigtype (Signatures zd)\<rparr>, True)
                     else Inr (zd\<lparr>Signatures := AList.update sigtype xs (Signatures zd)\<rparr>, True))
                  else Inr (zd, False))
         | _ \<Rightarrow> Inl Panic)
      else
        (case range_delete (\<lambda>zr. r = zr) (lookup (RR zd) t) of
           Inl e \<Rightarrow> Inl e
         | Inr (xs, remove) \<Rightarrow>
             if remove then
               (if length xs = 0
                then Inr (zd\<lparr>RR := AList.delete t (RR zd)\<rparr>, True)
                else Inr (zd\<lparr>RR := AList.update t xs (RR zd)\<rparr>, True))
             else Inr (zd, False)))"

definition dec_Wildcard :: "Zone \<Rightarrow> Zone" where
  "dec_Wildcard z =
     (let w = Wildcard z - 1 in z\<lparr>Wildcard := (if w < 0 then 0 else w)\<rparr>)"

definition Remove :: "(string \<Rightarrow> string) \<Rightarrow> int \<Rightarrow> Zone \<Rightarrow> RR \<Rightarrow> error + Zone" where
  "Remove U now z r =
     (let name = Name (Header r) in
      case toRadixName U name of
        Inl e \<Rightarrow> Inl e
      | Inr key \<Rightarrow>
          (let z1 = z\<lparr>ModTime := now\<rparr> in
           case map_of (Radix z1) key of
             None \<Rightarrow> Inr z1
           | Some zd0 \<Rightarrow>
               (case remove_rr r zd0 of
                  Inl e \<Rightarrow> Inl e
                | Inr (zd, remove) \<Rightarrow>
                    if \<not> remove then Inr z1
                    else
                      (let z2 = (if is_wildcard name then dec_Wildcard z1 else z1) in
                       if length (RR zd) = 0 \<and> length (Signatures zd) = 0
                       then Inr (z2\<lparr>Radix := AList.delete key (Radix z2)\<rparr>)
                       else Inr (z2\<lparr>Radix := AList.update key zd (Radix z2)\<rparr>)))))"

definition RemoveName :: "(string \<Rightarrow> string) \<Rightarrow> int \<Rightarrow> Zone \<Rightarrow> string \<Rightarrow> error + Zone" where
  "RemoveName U now z s =
     (case toRadixName U s of
        Inl e \<Rightarrow> Inl e
      | Inr key \<Rightarrow>
          (let z1 = z\<lparr>ModTime := now\<rparr>;
               z2 = z1\<lparr>Radix := AList.delete key (Radix z1)\<rparr>
           in Inr (if is_wildcard s then dec_Wildcard z2 else z2)))"

definition RemoveRRset ::
  "(string \<Rightarrow> string) \<Rightarrow> int \<Rightarrow> Zone \<Rightarrow> string \<Rightarrow> uint16 \<Rightarrow> error + Zone" where
  "RemoveRRset U now z s t =
     (let z1 = z\<lparr>ModTime := now\<rparr> in
      case toRadixName U s of
        Inl e \<Rightarrow> Inl e
      | Inr key \<Rightarrow>
          (case map_of (Radix z1) key of
             None \<Rightarrow> Inr z1
           | Some zd \<Rightarrow>
               (let zd' = (if t = TypeRRSIG then zd\<lparr>Signatures := []\<rparr> else zd\<lparr>RR := []\<rparr>)
                in Inr (z1\<lparr>Radix := AList.update key zd' (Radix z1)\<rparr>))))"

text \<open>
  Modelled from the spec: \<open>Radix.Find\<close> of the external package returns the node of the
  key with \<open>exact = true\<close>, or else "the nearest ancestor (longest common prefix ending at
  a node with a non-null value)" with \<open>exact = false\<close>, and no node when there is none.
\<close>

fun nearest_ancestor :: "(string \<times> 'a) list \<Rightarrow> string \<Rightarrow> (string \<times> 'a) option \<Rightarrow> (string \<times> 'a) option" where
  "nearest_ancestor [] key best = best"
| "nearest_ancestor ((k, v) # t) key best =
     (if take (length k) key = k \<and> (case best of None \<Rightarrow> True | Some (k', v') \<Rightarrow> length k' < length k)
      then nearest_ancestor t key (Some (k, v))
      else nearest_ancestor t key best)"

definition Radix_Find :: "(string \<times> 'a) list \<Rightarrow> string \<Rightarrow> 'a option \<times> bool" where
  "Radix_Find t key =
     (case map_of t key of
        Some v \<Rightarrow> (Some v, True)
      | None \<Rightarrow> (map_option snd (nearest_ancestor t key None), False))"

definition Find ::
  "(string \<Rightarrow> string) \<Rightarrow> Zone \<Rightarrow> string \<Rightarrow> error + (ZoneData option \<times> bool)" where
  "Find U z s =
     (case toRadixName U s of
        Inl e \<Rightarrow> Inl e
      | Inr key \<Rightarrow>
          (case Radix_Find (Radix z) key of
             (None, e) \<Rightarrow> Inr (None, False)
           | (Some node, e) \<Rightarrow> Inr (Some node, e)))"

subsection \<open>Sequences of mutations\<close>

text \<open>
  A mutation of the zone together with the clock reading it sees, and the run of a list
  of them, stopping at the first error.
\<close>

datatype zone_op =
    OpInsert RR
  | OpRemove RR
  | OpRemoveName string
  | OpRemoveRRset string uint16

fun apply_op :: "(string \<Rightarrow> string) \<Rightarrow> Zone \<Rightarrow> int \<times> zone_op \<Rightarrow> error + Zone" where
  "apply_op U z (now, OpInsert r) = Insert U now z r"
| "apply_op U z (now, OpRemove r) = Remove U now z r"
| "apply_op U z (now, OpRemoveName s) = RemoveName U now z s"
| "apply_op U z (now, OpRemoveRRset s t) = RemoveRRset U now z s t"

fun apply_ops :: "(string \<Rightarrow> string) \<Rightarrow> Zone \<Rightarrow> (int \<times> zone_op) list \<Rightarrow> error + Zone" where
  "apply_ops U z [] = Inr z"
| "apply_ops U z (x # xs) =
     (case apply_op U z x of Inl e \<Rightarrow> Inl e | Inr z' \<Rightarrow> apply_ops U z' xs)"

text \<open>The number of nodes in the tree whose owner name starts with the label \<open>*\<close>.\<close>

definition wildcard_nodes :: "Zone \<Rightarrow> nat" where
  "wildcard_nodes z = length (filter (\<lambda>(k, zd). is_wildcard (zd_Name zd)) (Radix z))"

text \<open>
  The zones and records of the examples: an empty zone \<open>example.com.\<close>, the empty root
  zone, and a few records.
\<close>

definition example_zone :: Zone where
  "example_zone =
     \<lparr>Origin = ''example.com.'', olabels = [''example'', ''com''], Wildcard = 0,
      expired = False, ModTime = 0, Radix = []\<rparr>"

definition root_zone :: Zone where
  "root_zone =
     \<lparr>Origin = ''.'', olabels = [], Wildcard = 0, expired = False, ModTime = 0, Radix = []\<rparr>"

definition mk_rr :: "string \<Rightarrow> uint16 \<Rightarrow> string \<Rightarrow> RR" where
  "mk_rr name t rdata =
     RR_Other \<lparr>Name = name, Rrtype = t, Class = ClassINET, Ttl = 300, Rdlength = 0\<rparr> rdata"

definition escaped_dot_name :: string where
  "escaped_dot_name = [CHR ''a'', backslash, CHR ''.'']"

section \<open>The signer (zone.go)\<close>

text \<open>
  Times (\<open>time.Time\<close>) are integers, the nanoseconds since the Unix epoch; durations
  (\<open>time.Duration\<close>, a 64-bit count of nanoseconds) are integers too, with the overflow of
  the 64-bit product in \<open>uint32ToTime\<close> and the saturation of \<open>Time.Sub\<close> written out.
\<close>

definition Second :: int where "Second = 1000000000"
definition Hour :: int where "Hour = 3600 * Second"

record SignatureConfig =
  Validity :: int
  Refresh :: int
  Jitter :: int
  InceptionOffset :: int
  HonorSepFlag :: bool
  SignerRoutines :: int
  Minttl :: uint32

text \<open>\<open>newSignatureConfig\<close>; the argument is the value of \<open>runtime.NumCPU()\<close>.\<close>

definition newSignatureConfig :: "int \<Rightarrow> SignatureConfig" where
  "newSignatureConfig numcpu =
     \<lparr>Validity = (4 * 7 * 24) * Hour, Refresh = (3 * 24) * Hour, Jitter = 12 * Hour,
      InceptionOffset = 300 * Second, HonorSepFlag = True, SignerRoutines = numcpu + 1,
      Minttl = 0\<rparr>"

text \<open>
  Modelled from the spec: the constant \<open>year68\<close> (declared in dnssec.go); the
  specification speaks of the "68-year wraparound" of 32-bit serial arithmetic, that is
  \<open>2^31\<close> seconds.
\<close>

definition year68 :: int where "year68 = 2 ^ 31"

text \<open>Go's integer division truncates towards zero.\<close>

definition quot :: "int \<Rightarrow> int \<Rightarrow> int" where
  "quot a b = sgn a * sgn b * (\<bar>a\<bar> div \<bar>b\<bar>)"

definition wrap64 :: "int \<Rightarrow> int" where
  "wrap64 x = (x + 2 ^ 63) mod 2 ^ 64 - 2 ^ 63"

definition sat64 :: "int \<Rightarrow> int" where
  "sat64 x = (if x < - (2 ^ 63) then - (2 ^ 63) else if 2 ^ 63 - 1 < x then 2 ^ 63 - 1 else x)"

definition Unix :: "int \<Rightarrow> int" where
  "Unix t = t div Second"

definition Sub :: "int \<Rightarrow> int \<Rightarrow> int" where
  "Sub t u = sat64 (t - u)"

definition timeToUint32 :: "int \<Rightarrow> uint32" where
  "timeToUint32 t =
     (let m0 = quot (Unix t) year68 - 1;
          m = (if m0 < 0 then 0 else m0)
      in word_of_int (Unix t - m * year68))"

text \<open>
  \<open>uint32ToTime\<close>; \<open>clock\<close> is the reading of \<open>time.Now()\<close> inside the function. The
  duration is the product \<open>(mod * year68) * int64(t)\<close>, taken as nanoseconds and added
  to the epoch.
\<close>

definition uint32ToTime :: "int \<Rightarrow> uint32 \<Rightarrow> int" where
  "uint32ToTime clock t =
     (let m0 = quot (Unix clock) year68 - 1;
          m = (if m0 < 0 then 0 else m0);
          duration = wrap64 (wrap64 (m * year68) * uint t)
      in 0 + duration)"

text \<open>
  \<open>rand.Intn n\<close> panics for \<open>n \<le> 0\<close> and otherwise returns a number in \<open>[0, n)\<close>; the
  second argument is the number the generator draws. \<open>jitterDuration\<close> draws twice, the
  draws being numbers \<open>c\<close> and \<open>c + 1\<close> of the supply \<open>draw\<close>.
\<close>

definition Intn :: "int \<Rightarrow> int \<Rightarrow> error + int" where
  "Intn n x = (if n \<le> 0 then Inl Panic else Inr (x mod n))"

definition jitterDuration :: "(nat \<Rightarrow> int) \<Rightarrow> nat \<Rightarrow> int \<Rightarrow> error + int" where
  "jitterDuration draw c d =
     (case Intn d (draw c) of
        Inl e \<Rightarrow> Inl e
      | Inr jitter \<Rightarrow>
          (case Intn 1 (draw (c + 1)) of
             Inl e \<Rightarrow> Inl e
           | Inr b \<Rightarrow> if b = 1 then Inr jitter else Inr (- jitter)))"

text \<open>\<open>signatures\<close>: the first signature of the slice made with the key tag, and its index.\<close>

fun signatures_from :: "nat \<Rightarrow> RRSIG list \<Rightarrow> uint16 \<Rightarrow> nat \<times> RRSIG option" where
  "signatures_from i [] keytag = (0, None)"
| "signatures_from i (s # ss) keytag =
     (if KeyTag s = keytag then (i, Some s) else signatures_from (i + 1) ss keytag)"

definition signatures :: "RRSIG list \<Rightarrow> uint16 \<Rightarrow> nat \<times> RRSIG option" where
  "signatures sigs keytag = signatures_from 0 sigs keytag"

subsection \<open>The NSEC record of a node (ZoneData.Sign, first part)\<close>

text \<open>
  The search of one type in the stored bitmap, with its early exit on a larger entry.
\<close>

fun bitmap_found :: "uint16 list \<Rightarrow> uint16 \<Rightarrow> bool" where
  "bitmap_found [] t = False"
| "bitmap_found (v # vs) t =
     (if v = t then True else if v > t then False else bitmap_found vs t)"

text \<open>
  The loop over the types of the node: \<open>stored\<close> is the bitmap of the NSEC found (when
  \<open>nsecok\<close>), the state is the bitmap collected so far and the flag \<open>bitmapEqual\<close>.
\<close>

fun bitmap_loop ::
  "bool \<Rightarrow> uint16 list \<Rightarrow> uint16 list \<Rightarrow> uint16 list \<times> bool \<Rightarrow> uint16 list \<times> bool" where
  "bitmap_loop nsecok stored [] st = st"
| "bitmap_loop nsecok stored (t # ts) (bitmap, bitmapEqual) =
     (let bitmapEqual' = (if nsecok \<and> \<not> bitmap_found stored t then False else bitmapEqual)
      in if t = TypeNSEC \<or> t = TypeRRSIG
         then bitmap_loop nsecok stored ts (bitmap, bitmapEqual')
         else bitmap_loop nsecok stored ts (bitmap @ [t], bitmapEqual'))"

text \<open>The computed bitmap of a node, after \<open>sort.Sort\<close>.\<close>

definition computed_bitmap :: "RR gomap \<Rightarrow> uint16 list" where
  "computed_bitmap rr =
     sort (fst (bitmap_loop False [] (map fst rr) ([TypeNSEC, TypeRRSIG], True)))"

definition Sign_nsec :: "string \<Rightarrow> SignatureConfig \<Rightarrow> ZoneData \<Rightarrow> error + ZoneData" where
  "Sign_nsec next config node =
     (if haskey (RR node) TypeNSEC then
        (case lookup (RR node) TypeNSEC of
           [] \<Rightarrow> Inl Panic
         | RR_NSEC h nd stored # rest \<Rightarrow>
             (case bitmap_loop True stored (map fst (RR node)) ([TypeNSEC, TypeRRSIG], True) of
                (bm, bitmapEqual) \<Rightarrow>
                  if nd = next \<and> bitmapEqual then Inr node
                  else Inr (node\<lparr>RR := AList.update TypeNSEC (RR_NSEC h next (sort bm) # rest) (RR node),
                                 Signatures := AList.update TypeNSEC [] (Signatures node)\<rparr>))
         | _ # rest \<Rightarrow> Inl Panic)
      else
        (case bitmap_loop False [] (map fst (RR node)) ([TypeNSEC, TypeRRSIG], True) of
           (bm, bitmapEqual) \<Rightarrow>
             Inr (node\<lparr>RR := AList.update TypeNSEC
                               [RR_NSEC \<lparr>Name = zd_Name node, Rrtype = TypeNSEC, Class = ClassINET,
                                         Ttl = Minttl config, Rdlength = 0\<rparr> next (sort bm)]
                               (RR node),
                        Signatures := AList.update TypeNSEC [] (Signatures node)\<rparr>)))"

subsection \<open>The signatures of a node (ZoneData.Sign, second and third part)\<close>

text \<open>
  What the signer takes from outside: \<open>rrsig_Sign\<close> is the method \<open>RRSIG.Sign\<close> of
  dnssec.go (it fills in the signature and the remaining fields of the RRSIG, or fails),
  \<open>rand_draw\<close> the numbers the random generator draws.
\<close>

record 'p world =
  rrsig_Sign :: "'p \<Rightarrow> RRSIG \<Rightarrow> RR list \<Rightarrow> error + RRSIG"
  rand_draw :: "nat \<Rightarrow> int"

definition zero_Header :: RR_Header where
  "zero_Header = \<lparr>Name = [], Rrtype = 0, Class = 0, Ttl = 0, Rdlength = 0\<rparr>"

definition zero_RRSIG :: RRSIG where
  "zero_RRSIG =
     \<lparr>Hdr = zero_Header, TypeCovered = 0, Algorithm = 0, Labels = 0, OrigTtl = 0,
      Expiration = 0, Inception = 0, KeyTag = 0, SignerName = [], Signature = []\<rparr>"

fun is_DNSKEY :: "RR \<Rightarrow> bool" where
  "is_DNSKEY (RR_DNSKEY k) = True"
| "is_DNSKEY r = False"

fun is_DS :: "RR \<Rightarrow> bool" where
  "is_DS (RR_DS h d) = True"
| "is_DS r = False"

fun is_NSEC :: "RR \<Rightarrow> bool" where
  "is_NSEC (RR_NSEC h nd bm) = True"
| "is_NSEC r = False"

text \<open>
  The test \<open>now.Sub(uint32ToTime(q.Expiration)) < config.Refresh\<close>, used for the refresh
  and again for the final scan.
\<close>

definition refresh_due :: "int \<Rightarrow> SignatureConfig \<Rightarrow> RRSIG \<Rightarrow> bool" where
  "refresh_due now config q \<longleftrightarrow> Sub now (uint32ToTime now (Expiration q)) < Refresh config"

text \<open>
  The body of the two nested loops, for one key and one RRset. The state is the map of
  signatures of the node and the number of random draws made so far.
\<close>

fun sign_rrset ::
  "'p world \<Rightarrow> int \<Rightarrow> (DNSKEY \<Rightarrow> uint16) \<Rightarrow> SignatureConfig \<Rightarrow> bool \<Rightarrow> DNSKEY \<times> 'p \<Rightarrow>
   uint16 \<times> RR list \<Rightarrow> RRSIG gomap \<times> nat \<Rightarrow> error + (RRSIG gomap \<times> nat)" where
  "sign_rrset W now keytags config nonauth (k, p) (t, rrset) (sigs, c) =
     (if Flags k AND SEP = SEP \<and> rrset = [] then Inl Panic
      else if Flags k AND SEP = SEP \<and> \<not> is_DNSKEY (hd rrset) then Inr (sigs, c)
      else if nonauth \<and> rrset = [] then Inl Panic
      else if nonauth \<and> \<not> is_DS (hd rrset) \<and> \<not> is_NSEC (hd rrset) then Inr (sigs, c)
      else
        (case signatures (lookup sigs t) (keytags k) of
           (j, q) \<Rightarrow>
             if (case q of None \<Rightarrow> True | Some q' \<Rightarrow> refresh_due now config q') then
               (case jitterDuration (rand_draw W) c (Jitter config) of
                  Inl e \<Rightarrow> Inl e
                | Inr jit \<Rightarrow>
                    (let s = zero_RRSIG
                           \<lparr>Hdr := zero_Header\<lparr>Ttl := Ttl (key_Hdr k), Class := ClassINET\<rparr>,
                            Algorithm := key_Algorithm k,
                            Expiration := timeToUint32 (now + jit + Validity config),
                            Inception := timeToUint32 (now + (- InceptionOffset config)),
                            KeyTag := keytags k,
                            SignerName := Name (key_Hdr k)\<rparr>
                     in case rrsig_Sign W p s rrset of
                          Inl e \<Rightarrow> Inl e
                        | Inr s' \<Rightarrow>
                            (case q of
                               Some q' \<Rightarrow> Inr (AList.update t ((lookup sigs t)[j := s']) sigs, c + 2)
                             | None \<Rightarrow> Inr (AList.update t (lookup sigs t @ [s']) sigs, c + 2))))
             else Inr (sigs, c)))"

fun sign_rrsets ::
  "'p world \<Rightarrow> int \<Rightarrow> (DNSKEY \<Rightarrow> uint16) \<Rightarrow> SignatureConfig \<Rightarrow> bool \<Rightarrow> DNSKEY \<times> 'p \<Rightarrow>
   (uint16 \<times> RR list) list \<Rightarrow> RRSIG gomap \<times> nat \<Rightarrow> error + (RRSIG gomap \<times> nat)" where
  "sign_rrsets W now keytags config nonauth kp [] st = Inr st"
| "sign_rrsets W now keytags config nonauth kp (trr # rest) st =
     (case sign_rrset W now keytags config nonauth kp trr st of
        Inl e \<Rightarrow> Inl e
      | Inr st' \<Rightarrow> sign_rrsets W now keytags config nonauth kp rest st')"

fun sign_keys ::
  "'p world \<Rightarrow> int \<Rightarrow> (DNSKEY \<Rightarrow> uint16) \<Rightarrow> SignatureConfig \<Rightarrow> bool \<Rightarrow> (DNSKEY \<times> 'p) list \<Rightarrow>
   (uint16 \<times> RR list) list \<Rightarrow> RRSIG gomap \<times> nat \<Rightarrow> error + (RRSIG gomap \<times> nat)" where
  "sign_keys W now keytags config nonauth [] rr st = Inr st"
| "sign_keys W now keytags config nonauth (kp # kps) rr st =
     (case sign_rrsets W now keytags config nonauth kp rr st of
        Inl e \<Rightarrow> Inl e
      | Inr st' \<Rightarrow> sign_keys W now keytags config nonauth kps rr st')"

text \<open>
  The final scan: for every entry of the map of signatures, the deleting range loop
  with the same test.
\<close>

fun expire_sigs ::
  "(RRSIG \<Rightarrow> bool) \<Rightarrow> (uint16 \<times> RRSIG list) list \<Rightarrow> RRSIG gomap \<Rightarrow> error + RRSIG gomap" where
  "expire_sigs P [] sigs = Inr sigs"
| "expire_sigs P ((i, s) # rest) sigs =
     (case range_delete P s of
        Inl e \<Rightarrow> Inl e
      | Inr (s', rm) \<Rightarrow> expire_sigs P rest (if rm then AList.update i s' sigs else sigs))"

text \<open>
  \<open>ZoneData.Sign\<close>: \<open>now\<close> is the reading of the clock, \<open>keys\<close> the map of keys in the
  order the loop visits it, \<open>keytags\<close> the map of the key tags.
\<close>

definition Sign ::
  "'p world \<Rightarrow> int \<Rightarrow> string \<Rightarrow> (DNSKEY \<times> 'p) list \<Rightarrow> (DNSKEY \<Rightarrow> uint16) \<Rightarrow>
   SignatureConfig \<Rightarrow> ZoneData \<Rightarrow> error + ZoneData" where
  "Sign W now next keys keytags config node =
     (case Sign_nsec next config node of
        Inl e \<Rightarrow> Inl e
      | Inr node1 \<Rightarrow>
          (case sign_keys W now keytags config (NonAuth node1) keys (RR node1)
                  (Signatures node1, 0) of
             Inl e \<Rightarrow> Inl e
           | Inr (sigs, c) \<Rightarrow>
               (case expire_sigs (refresh_due now config) sigs sigs of
                  Inl e \<Rightarrow> Inl e
                | Inr sigs' \<Rightarrow> Inr (node1\<lparr>Signatures := sigs'\<rparr>))))"

subsection \<open>The start of Zone.Sign\<close>

text \<open>
  \<open>Zone.Sign\<close> up to the point where the apex is handed to the signer goroutines: the
  default configuration, the channel and the wait group (both panic on a negative
  number of routines), the lookup of the apex and the read of the minimum TTL from the
  first SOA record of the apex. The result is the zone as the call leaves it and either
  an error or the configuration and the apex node to start from. The concurrent walk
  that follows is not modelled.
\<close>

definition Zone_Sign_start ::
  "(string \<Rightarrow> string) \<Rightarrow> int \<Rightarrow> int \<Rightarrow> Zone \<Rightarrow> SignatureConfig option \<Rightarrow>
   Zone \<times> (error + (SignatureConfig \<times> ZoneData))" where
  "Zone_Sign_start U numcpu now z cfg =
     (let z1 = z\<lparr>ModTime := now\<rparr>;
          config = (case cfg of None \<Rightarrow> newSignatureConfig numcpu | Some c \<Rightarrow> c)
      in if SignerRoutines config < 0 then (z1, Inl Panic)
         else
           (case toRadixName U (Origin z1) of
              Inl e \<Rightarrow> (z1, Inl e)
            | Inr key \<Rightarrow>
                (case Radix_Find (Radix z1) key of
                   (n, e) \<Rightarrow>
                     if \<not> e then (z1, Inl ErrSoa)
                     else
                       (case n of
                          None \<Rightarrow> (z1, Inl Panic)
                        | Some apex \<Rightarrow>
                            (case lookup (RR apex) TypeSOA of
                               [] \<Rightarrow> (z1, Inl Panic)
                             | RR_SOA h m # rest \<Rightarrow> (z1, Inr (config\<lparr>Minttl := m\<rparr>, apex))
                             | _ # rest \<Rightarrow> (z1, Inl Panic))))))"

subsection \<open>The signer's examples and the specification's reading of a signature\<close>

text \<open>
  The specification's words for a signature at the time \<open>now\<close>: it is valid when
  "inception \<open>\<le>\<close> now \<open><\<close> expiration", and its remaining lifetime is
  "expiration \<open>-\<close> now"; both fields count seconds since the epoch.
\<close>

definition rrsig_valid_at :: "int \<Rightarrow> RRSIG \<Rightarrow> bool" where
  "rrsig_valid_at now sg \<longleftrightarrow> uint (Inception sg) \<le> Unix now \<and> Unix now < uint (Expiration sg)"

definition remaining_lifetime :: "int \<Rightarrow> RRSIG \<Rightarrow> int" where
  "remaining_lifetime now sg = uint (Expiration sg) * Second - now"

text \<open>
  A signing function that always succeeds, a generator that always draws 0, a zone
  signing key with tag 7, a signature of that key over the A RRset with the given
  inception and expiration, and a node \<open>a.example.com.\<close> holding one A record and the
  given signatures for it.
\<close>

definition test_world :: "string world" where
  "test_world =
     \<lparr>rrsig_Sign = (\<lambda>p s rrset. Inr (s\<lparr>TypeCovered := Rrtype (Header (hd rrset)), Signature := p\<rparr>)),
      rand_draw = (\<lambda>n. 0)\<rparr>"

definition test_key :: DNSKEY where
  "test_key =
     \<lparr>key_Hdr = \<lparr>Name = ''example.com.'', Rrtype = TypeDNSKEY, Class = ClassINET, Ttl = 3600,
                 Rdlength = 0\<rparr>,
      Flags = 256, Protocol = 3, key_Algorithm = 8, PublicKey = ''public''\<rparr>"

definition test_sig :: "uint32 \<Rightarrow> uint32 \<Rightarrow> RRSIG" where
  "test_sig inc exp =
     \<lparr>Hdr = \<lparr>Name = ''a.example.com.'', Rrtype = TypeRRSIG, Class = ClassINET, Ttl = 3600,
             Rdlength = 0\<rparr>,
      TypeCovered = 1, Algorithm = 8, Labels = 3, OrigTtl = 300, Expiration = exp,
      Inception = inc, KeyTag = 7, SignerName = ''example.com.'', Signature = ''old''\<rparr>"

definition test_node :: "RRSIG list \<Rightarrow> ZoneData" where
  "test_node sigs =
     \<lparr>zd_Name = ''a.example.com.'',
      RR = [(1, [mk_rr ''a.example.com.'' 1 ''192.0.2.1''])],
      Signatures = [(1, sigs)], NonAuth = False\<rparr>"

definition test_now :: int where
  "test_now = 1700000000 * Second"

text \<open>
  A node whose A record was removed after the node had been signed: the NSEC record
  still lists the type A (1).
\<close>

definition stale_nsec_node :: ZoneData where
  "stale_nsec_node =
     \<lparr>zd_Name = ''a.example.com.'',
      RR = [(TypeNSEC,
             [RR_NSEC \<lparr>Name = ''a.example.com.'', Rrtype = TypeNSEC, Class = ClassINET, Ttl = 3600,
                       Rdlength = 0\<rparr> ''example.com.'' [1, TypeRRSIG, TypeNSEC]])],
      Signatures = [(TypeNSEC, [test_sig 1699000000 1702000000])], NonAuth = False\<rparr>"

section \<open>EDNS0 options and the OPT record (edns.go)\<close>

subsection \<open>Library functions the option codecs call\<close>

text \<open>
  \<open>hex.DecodeString\<close> and \<open>hex.EncodeToString\<close> of the Go standard library: decoding
  accepts digits and letters of either case, two per byte, and fails on an odd length or
  on any other byte; encoding writes lowercase digits.
\<close>

definition byte_of_char :: "char \<Rightarrow> byte" where
  "byte_of_char c = of_nat (of_char c)"

definition fromHexChar :: "char \<Rightarrow> byte option" where
  "fromHexChar c =
     (if CHR ''0'' \<le> c \<and> c \<le> CHR ''9'' then Some (byte_of_char c - byte_of_char (CHR ''0''))
      else if CHR ''a'' \<le> c \<and> c \<le> CHR ''f'' then Some (byte_of_char c - byte_of_char (CHR ''a'') + 10)
      else if CHR ''A'' \<le> c \<and> c \<le> CHR ''F'' then Some (byte_of_char c - byte_of_char (CHR ''A'') + 10)
      else None)"

fun hex_DecodeString :: "string \<Rightarrow> error + byte list" where
  "hex_DecodeString [] = Inr []"
| "hex_DecodeString [p] = Inl ErrHex"
| "hex_DecodeString (p # q # rest) =
     (case fromHexChar p of
        None \<Rightarrow> Inl ErrHex
      | Some a \<Rightarrow>
          (case fromHexChar q of
             None \<Rightarrow> Inl ErrHex
           | Some b \<Rightarrow>
               (case hex_DecodeString rest of
                  Inl e \<Rightarrow> Inl e
                | Inr bs \<Rightarrow> Inr ((push_bit 4 a OR b) # bs))))"

definition hextable :: string where
  "hextable = ''0123456789abcdef''"

fun hex_EncodeToString :: "byte list \<Rightarrow> string" where
  "hex_EncodeToString [] = []"
| "hex_EncodeToString (v # vs) =
     hextable ! unat (drop_bit 4 v) # hextable ! unat (v AND 0x0f) # hex_EncodeToString vs"

text \<open>
  The functions of package \<open>net\<close> that the client-subnet option calls. An IP address and
  a mask are byte slices; the nil slice is the empty list.
\<close>

definition v4InV6Prefix :: "byte list" where
  "v4InV6Prefix = [0, 0, 0, 0, 0, 0, 0, 0, 0, 0, 0xff, 0xff]"

definition IPv4 :: "byte \<Rightarrow> byte \<Rightarrow> byte \<Rightarrow> byte \<Rightarrow> byte list" where
  "IPv4 a b c d = v4InV6Prefix @ [a, b, c, d]"

definition To4 :: "byte list \<Rightarrow> byte list" where
  "To4 ip =
     (if length ip = 4 then ip
      else if length ip = 16 \<and> take 10 ip = replicate 10 0 \<and> ip ! 10 = 0xff \<and> ip ! 11 = 0xff
      then drop 12 ip
      else [])"

fun CIDRMask_loop :: "nat \<Rightarrow> nat \<Rightarrow> byte list" where
  "CIDRMask_loop 0 n = []"
| "CIDRMask_loop (Suc l) n =
     (if 8 \<le> n then 0xff # CIDRMask_loop l (n - 8)
      else NOT (drop_bit n 0xff) # CIDRMask_loop l 0)"

definition CIDRMask :: "int \<Rightarrow> int \<Rightarrow> byte list" where
  "CIDRMask ones bits =
     (if bits \<noteq> 32 \<and> bits \<noteq> 128 then []
      else if ones < 0 \<or> bits < ones then []
      else CIDRMask_loop (nat (bits div 8)) (nat ones))"

definition allFF :: "byte list \<Rightarrow> bool" where
  "allFF bs = list_all (\<lambda>b. b = 0xff) bs"

definition Mask :: "byte list \<Rightarrow> byte list \<Rightarrow> byte list" where
  "Mask ip msk =
     (let mask1 = (if length msk = 16 \<and> length ip = 4 \<and> allFF (take 12 msk)
                   then drop 12 msk else msk);
          ip1 = (if length mask1 = 4 \<and> length ip = 16 \<and> take 12 ip = v4InV6Prefix
                 then drop 12 ip else ip)
      in if length ip1 \<noteq> length mask1 then [] else map2 (AND) ip1 mask1)"

text \<open>
  Modelled from the spec: \<open>packUint16\<close> and \<open>unpackUint16\<close> (msg.go, not among the
  sources) write and read a 16-bit field, which the specification has big-endian on the
  wire (\<open>family:16\<close>, the octets \<open>00 01\<close> for family 1).
\<close>

definition packUint16 :: "uint16 \<Rightarrow> byte \<times> byte" where
  "packUint16 i = (ucast (drop_bit 8 i), ucast i)"

definition unpackUint16 :: "byte list \<Rightarrow> nat \<Rightarrow> uint16" where
  "unpackUint16 msg off = push_bit 8 (ucast (msg ! off)) OR ucast (msg ! (off + 1))"

subsection \<open>The options\<close>

record EDNS0_NSID =
  nsid_Code :: uint16
  Nsid :: string

record EDNS0_SUBNET =
  subnet_Code :: uint16
  Family :: uint16
  SourceNetmask :: byte
  SourceScope :: byte
  Address :: "byte list"

record EDNS0_UPDATE_LEASE =
  ul_Code :: uint16
  Lease :: uint32

record EDNS0_LLQ =
  llq_Code :: uint16
  llq_Version :: uint16
  LLQOpcode :: uint16
  ErrorCode :: uint16
  LLQID :: uint64
  LeaseLife :: uint32

definition pack_NSID :: "EDNS0_NSID \<Rightarrow> error + byte list" where
  "pack_NSID e = hex_DecodeString (Nsid e)"

definition unpack_NSID :: "EDNS0_NSID \<Rightarrow> byte list \<Rightarrow> EDNS0_NSID" where
  "unpack_NSID e b = e\<lparr>Nsid := hex_EncodeToString b\<rparr>"

text \<open>
  The copy loop of \<open>EDNS0_SUBNET.pack\<close>: for the indices \<open>is\<close> in turn, stop when
  \<open>i + 1\<close> exceeds the length \<open>la\<close> of the option's address, else copy \<open>a[i]\<close> (a panic
  when the masked address \<open>a\<close> is shorter) into \<open>ip[i]\<close>.
\<close>

fun subnet_copy :: "nat list \<Rightarrow> nat \<Rightarrow> byte list \<Rightarrow> byte list \<Rightarrow> error + byte list" where
  "subnet_copy [] la a ip = Inr ip"
| "subnet_copy (i # is) la a ip =
     (if la < i + 1 then Inr ip
      else if i < length a then subnet_copy is la a (ip[i := a ! i])
      else Inl Panic)"

definition pack_SUBNET :: "EDNS0_SUBNET \<Rightarrow> error + byte list" where
  "pack_SUBNET e =
     (let b = [fst (packUint16 (Family e)), snd (packUint16 (Family e)),
               SourceNetmask e, SourceScope e]
      in if Family e = 1 then
           (if 4 * 8 < SourceNetmask e then Inl ErrBadNetmask
            else
              (let a = Mask (To4 (Address e)) (CIDRMask (uint (SourceNetmask e)) (4 * 8))
               in case subnet_copy [0..<4] (length (Address e)) a (replicate 4 0) of
                    Inl err \<Rightarrow> Inl err
                  | Inr ip \<Rightarrow> Inr (b @ ip)))
         else if Family e = 2 then
           (if 16 * 8 < SourceNetmask e then Inl ErrBadNetmask
            else
              (let a = Mask (Address e) (CIDRMask (uint (SourceNetmask e)) (16 * 8))
               in case subnet_copy [0..<16] (length (Address e)) a (replicate 16 0) of
                    Inl err \<Rightarrow> Inl err
                  | Inr ip \<Rightarrow> Inr (b @ ip)))
         else Inl ErrBadFamily)"

definition unpack_SUBNET :: "EDNS0_SUBNET \<Rightarrow> byte list \<Rightarrow> EDNS0_SUBNET" where
  "unpack_SUBNET e b =
     (if length b < 8 then e
      else
        (let e1 = e\<lparr>Family := unpackUint16 b 0, SourceNetmask := b ! 2, SourceScope := b ! 3\<rparr>
         in if Family e1 = 1 then
              (if length b = 8 then e1\<lparr>Address := IPv4 (b ! 4) (b ! 5) (b ! 6) (b ! 7)\<rparr> else e1)
            else if Family e1 = 2 then
              (if length b = 20 then e1\<lparr>Address := map (\<lambda>i. b ! (4 + i)) [0..<16]\<rparr> else e1)
            else e1))"

definition pack_UPDATE_LEASE :: "EDNS0_UPDATE_LEASE \<Rightarrow> error + byte list" where
  "pack_UPDATE_LEASE e =
     Inr [ucast (drop_bit 24 (Lease e)), ucast (drop_bit 16 (Lease e)),
          ucast (drop_bit 8 (Lease e)), ucast (Lease e)]"

definition be32 :: "byte \<Rightarrow> byte \<Rightarrow> byte \<Rightarrow> byte \<Rightarrow> uint32" where
  "be32 b0 b1 b2 b3 =
     push_bit 24 (ucast b0) OR push_bit 16 (ucast b1) OR push_bit 8 (ucast b2) OR ucast b3"

definition be16 :: "byte \<Rightarrow> byte \<Rightarrow> uint16" where
  "be16 b0 b1 = push_bit 8 (ucast b0) OR ucast b1"

definition be64 :: "byte \<Rightarrow> byte \<Rightarrow> byte \<Rightarrow> byte \<Rightarrow> byte \<Rightarrow> byte \<Rightarrow> byte \<Rightarrow> byte \<Rightarrow> uint64" where
  "be64 b0 b1 b2 b3 b4 b5 b6 b7 =
     push_bit 56 (ucast b0) OR push_bit 48 (ucast b1) OR push_bit 40 (ucast b2)
     OR push_bit 32 (ucast b3) OR push_bit 24 (ucast b4) OR push_bit 16 (ucast b5)
     OR push_bit 8 (ucast b6) OR ucast b7"

text \<open>
  The two unpack methods below index the buffer without a length test: a short buffer is
  a panic.
\<close>

definition unpack_UPDATE_LEASE :: "EDNS0_UPDATE_LEASE \<Rightarrow> byte list \<Rightarrow> error + EDNS0_UPDATE_LEASE" where
  "unpack_UPDATE_LEASE e b =
     (if length b < 4 then Inl Panic
      else Inr (e\<lparr>Lease := be32 (b ! 0) (b ! 1) (b ! 2) (b ! 3)\<rparr>))"

definition pack_LLQ :: "EDNS0_LLQ \<Rightarrow> error + byte list" where
  "pack_LLQ e =
     Inr [ucast (drop_bit 8 (llq_Version e)), ucast (llq_Version e),
          ucast (drop_bit 8 (LLQOpcode e)), ucast (LLQOpcode e),
          ucast (drop_bit 8 (ErrorCode e)), ucast (ErrorCode e),
          ucast (drop_bit 56 (LLQID e)), ucast (drop_bit 48 (LLQID e)),
          ucast (drop_bit 40 (LLQID e)), ucast (drop_bit 32 (LLQID e)),
          ucast (drop_bit 24 (LLQID e)), ucast (drop_bit 16 (LLQID e)),
          ucast (drop_bit 8 (LLQID e)), ucast (LLQID e),
          ucast (drop_bit 24 (LeaseLife e)), ucast (drop_bit 16 (LeaseLife e)),
          ucast (drop_bit 8 (LeaseLife e)), ucast (LeaseLife e)]"

definition unpack_LLQ :: "EDNS0_LLQ \<Rightarrow> byte list \<Rightarrow> error + EDNS0_LLQ" where
  "unpack_LLQ e b =
     (if length b < 18 then Inl Panic
      else Inr (e\<lparr>llq_Version := be16 (b ! 0) (b ! 1),
                 LLQOpcode := be16 (b ! 2) (b ! 3),
                 ErrorCode := be16 (b ! 4) (b ! 5),
                 LLQID := be64 (b ! 6) (b ! 7) (b ! 8) (b ! 9) (b ! 10) (b ! 11) (b ! 12) (b ! 13),
                 LeaseLife := be32 (b ! 14) (b ! 15) (b ! 16) (b ! 17)\<rparr>))"

text \<open>
  The interface \<open>EDNS0\<close> with its methods \<open>pack\<close> and \<open>unpack\<close>; \<open>unpack\<close> updates the
  receiver.
\<close>

datatype EDNS0 =
    NSID EDNS0_NSID
  | SUBNET EDNS0_SUBNET
  | UPDATE_LEASE EDNS0_UPDATE_LEASE
  | LLQ EDNS0_LLQ

fun pack :: "EDNS0 \<Rightarrow> error + byte list" where
  "pack (NSID e) = pack_NSID e"
| "pack (SUBNET e) = pack_SUBNET e"
| "pack (UPDATE_LEASE e) = pack_UPDATE_LEASE e"
| "pack (LLQ e) = pack_LLQ e"

fun unpack :: "EDNS0 \<Rightarrow> byte list \<Rightarrow> error + EDNS0" where
  "unpack (NSID e) b = Inr (NSID (unpack_NSID e b))"
| "unpack (SUBNET e) b = Inr (SUBNET (unpack_SUBNET e b))"
| "unpack (UPDATE_LEASE e) b = map_sum id UPDATE_LEASE (unpack_UPDATE_LEASE e b)"
| "unpack (LLQ e) b = map_sum id LLQ (unpack_LLQ e b)"

subsection \<open>The OPT record\<close>

record OPT =
  opt_Hdr :: RR_Header
  Option :: "EDNS0 list"

definition DO_bit :: byte where
  "DO_bit = push_bit 7 1"

definition Version :: "OPT \<Rightarrow> byte" where
  "Version rr = ucast (Ttl (opt_Hdr rr) AND 0x00FF00FFFF)"

definition SetVersion :: "OPT \<Rightarrow> byte \<Rightarrow> OPT" where
  "SetVersion rr v = rr\<lparr>opt_Hdr := (opt_Hdr rr)\<lparr>Ttl := (Ttl (opt_Hdr rr) AND 0xFF00FFFF) OR ucast v\<rparr>\<rparr>"

definition UDPSize :: "OPT \<Rightarrow> uint16" where
  "UDPSize rr = Class (opt_Hdr rr)"

definition SetUDPSize :: "OPT \<Rightarrow> uint16 \<Rightarrow> OPT" where
  "SetUDPSize rr sz = rr\<lparr>opt_Hdr := (opt_Hdr rr)\<lparr>Class := sz\<rparr>\<rparr>"

definition Do :: "OPT \<Rightarrow> bool" where
  "Do rr \<longleftrightarrow> (ucast (drop_bit 8 (Ttl (opt_Hdr rr))) :: byte) AND DO_bit = DO_bit"

definition SetDo :: "OPT \<Rightarrow> OPT" where
  "SetDo rr =
     (let b1 = (ucast (drop_bit 24 (Ttl (opt_Hdr rr))) :: byte);
          b2 = (ucast (drop_bit 16 (Ttl (opt_Hdr rr))) :: byte);
          b3 = (ucast (drop_bit 8 (Ttl (opt_Hdr rr))) :: byte);
          b4 = (ucast (Ttl (opt_Hdr rr)) :: byte);
          b3' = b3 OR DO_bit
      in rr\<lparr>opt_Hdr := (opt_Hdr rr)\<lparr>Ttl := be32 b1 b2 b3' b4\<rparr>\<rparr>)"

text \<open>
  The specification's layout of the ttl field: the version is byte 1 of the big-endian
  value, bits 16 to 23.
\<close>

definition version_byte :: "uint32 \<Rightarrow> byte" where
  "version_byte ttl = ucast (drop_bit 16 ttl)"

definition opt_with_ttl :: "uint32 \<Rightarrow> OPT" where
  "opt_with_ttl ttl =
     \<lparr>opt_Hdr = \<lparr>Name = ''.'', Rrtype = 41, Class = 4096, Ttl = ttl, Rdlength = 0\<rparr>, Option = []\<rparr>"

subsection \<open>The round trip of an option, in the specification's terms\<close>

text \<open>
  The specification's words for what the codecs keep of an option: the client-subnet
  address is emitted "at full address width (4 for IPv4, 16 for IPv6) with bits beyond
  \<open>source_netmask\<close> masked to zero", and the text form of an NSID "is lowercase hex".
  \<open>keep_prefix n\<close> clears every bit of a byte string after its first \<open>n\<close> bits (bit 7
  of a byte being its first); the normal form of an option has the subnet address cut to
  the source netmask, an IPv4 address moreover in the 16-byte IPv4-in-IPv6 form in
  which \<open>unpack\<close> builds it, and the NSID text in lowercase.

  The recognized options are those the claim names: every UPDATE-LEASE and LLQ option,
  an NSID whose text is an even number of hex digits of either case, a client-subnet
  option of family 1 with an IPv4 address (4 bytes, or 16 bytes in the IPv4-in-IPv6
  form) and a netmask of at most 32, or of family 2 with a 16-byte address and a netmask
  of at most 128.

  \<open>unpack\<close> never writes the field \<open>Code\<close>: \<open>with_Code_of e0 e\<close> is the option \<open>e\<close>
  with the \<open>Code\<close> of the receiver \<open>e0\<close>, an option of the same kind.
\<close>

definition prefix_byte :: "nat \<Rightarrow> byte \<Rightarrow> byte" where
  "prefix_byte n b = b AND NOT (mask (8 - n))"

fun keep_prefix :: "nat \<Rightarrow> byte list \<Rightarrow> byte list" where
  "keep_prefix n [] = []"
| "keep_prefix n (b # bs) = prefix_byte n b # keep_prefix (n - 8) bs"

definition hex_digits :: string where
  "hex_digits = ''0123456789abcdefABCDEF''"

definition is_hex :: "char \<Rightarrow> bool" where
  "is_hex c \<longleftrightarrow> c \<in> set hex_digits"

fun recognized :: "EDNS0 \<Rightarrow> bool" where
  "recognized (NSID e) \<longleftrightarrow> even (length (Nsid e)) \<and> list_all is_hex (Nsid e)"
| "recognized (SUBNET e) \<longleftrightarrow>
     (Family e = 1 \<and> SourceNetmask e \<le> 32
        \<and> (length (Address e) = 4
            \<or> (length (Address e) = 16 \<and> take 12 (Address e) = v4InV6Prefix)))
     \<or> (Family e = 2 \<and> SourceNetmask e \<le> 128 \<and> length (Address e) = 16)"
| "recognized (UPDATE_LEASE e) \<longleftrightarrow> True"
| "recognized (LLQ e) \<longleftrightarrow> True"

fun normal_form :: "EDNS0 \<Rightarrow> EDNS0" where
  "normal_form (NSID e) = NSID (e\<lparr>Nsid := map lower_byte (Nsid e)\<rparr>)"
| "normal_form (SUBNET e) =
     (if Family e = 1
      then SUBNET (e\<lparr>Address := v4InV6Prefix @
                      keep_prefix (unat (SourceNetmask e))
                        (drop (length (Address e) - 4) (Address e))\<rparr>)
      else SUBNET (e\<lparr>Address := keep_prefix (unat (SourceNetmask e)) (Address e)\<rparr>))"
| "normal_form (UPDATE_LEASE e) = UPDATE_LEASE e"
| "normal_form (LLQ e) = LLQ e"

fun same_kind :: "EDNS0 \<Rightarrow> EDNS0 \<Rightarrow> bool" where
  "same_kind (NSID a) (NSID b) \<longleftrightarrow> True"
| "same_kind (SUBNET a) (SUBNET b) \<longleftrightarrow> True"
| "same_kind (UPDATE_LEASE a) (UPDATE_LEASE b) \<longleftrightarrow> True"
| "same_kind (LLQ a) (LLQ b) \<longleftrightarrow> True"
| "same_kind a b \<longleftrightarrow> False"

fun with_Code_of :: "EDNS0 \<Rightarrow> EDNS0 \<Rightarrow> EDNS0" where
  "with_Code_of (NSID a) (NSID b) = NSID (b\<lparr>nsid_Code := nsid_Code a\<rparr>)"
| "with_Code_of (SUBNET a) (SUBNET b) = SUBNET (b\<lparr>subnet_Code := subnet_Code a\<rparr>)"
| "with_Code_of (UPDATE_LEASE a) (UPDATE_LEASE b) = UPDATE_LEASE (b\<lparr>ul_Code := ul_Code a\<rparr>)"
| "with_Code_of (LLQ a) (LLQ b) = LLQ (b\<lparr>llq_Code := llq_Code a\<rparr>)"
| "with_Code_of a b = b"

text \<open>
  The client-subnet option of the specification's scenario S6 (192.0.2.77/24) with the
  address in the 16-byte form and in the 4-byte form of \<open>To4()\<close>, the same option
  with the address masked, a zero-valued receiver for unpacking, and an NSID written
  with uppercase hex digits.
\<close>

definition subnet_example :: EDNS0_SUBNET where
  "subnet_example =
     \<lparr>subnet_Code = 0x50fa, Family = 1, SourceNetmask = 24, SourceScope = 0,
      Address = IPv4 192 0 2 77\<rparr>"

definition subnet_To4 :: EDNS0_SUBNET where
  "subnet_To4 = subnet_example\<lparr>Address := [192, 0, 2, 77]\<rparr>"

definition subnet_masked :: EDNS0_SUBNET where
  "subnet_masked = subnet_example\<lparr>Address := IPv4 192 0 2 0\<rparr>"

definition zero_SUBNET :: EDNS0_SUBNET where
  "zero_SUBNET =
     \<lparr>subnet_Code = 0, Family = 0, SourceNetmask = 0, SourceScope = 0, Address = []\<rparr>"

definition nsid_upper :: EDNS0_NSID where
  "nsid_upper = \<lparr>nsid_Code = 3, Nsid = ''AB''\<rparr>"

section \<open>Results\<close>

subsection \<open>The wildcard counter\<close>

lemma dec_Wildcard_nonneg: "0 \<le> Wildcard (dec_Wildcard z)"
  by (simp add: dec_Wildcard_def Let_def)

lemma Insert_Wildcard_nonneg:
  assumes "Insert U now z r = Inr z'" and "0 \<le> Wildcard z"
  shows "0 \<le> Wildcard z'"
  using assms
  by (auto simp: Insert_def Let_def split: if_splits sum.splits option.splits)

lemma Remove_Wildcard_nonneg:
  assumes "Remove U now z r = Inr z'" and "0 \<le> Wildcard z"
  shows "0 \<le> Wildcard z'"
  using assms
  by (auto simp: Remove_def Let_def dec_Wildcard_def
      split: if_splits sum.splits option.splits prod.splits)

lemma RemoveName_Wildcard_nonneg:
  assumes "RemoveName U now z s = Inr z'" and "0 \<le> Wildcard z"
  shows "0 \<le> Wildcard z'"
  using assms
  by (auto simp: RemoveName_def Let_def dec_Wildcard_def split: if_splits sum.splits)

lemma RemoveRRset_Wildcard:
  assumes "RemoveRRset U now z s t = Inr z'"
  shows "Wildcard z' = Wildcard z"
  using assms
  by (auto simp: RemoveRRset_def Let_def split: if_splits sum.splits option.splits)

lemma apply_op_Wildcard_nonneg:
  assumes "apply_op U z x = Inr z'" and "0 \<le> Wildcard z"
  shows "0 \<le> Wildcard z'"
proof (cases x)
  case (Pair now op)
  show ?thesis
  proof (cases op)
    case (OpInsert r)
    with Pair assms show ?thesis by (simp add: Insert_Wildcard_nonneg)
  next
    case (OpRemove r)
    with Pair assms show ?thesis by (simp add: Remove_Wildcard_nonneg)
  next
    case (OpRemoveName s)
    with Pair assms show ?thesis by (simp add: RemoveName_Wildcard_nonneg)
  next
    case (OpRemoveRRset s t)
    with Pair assms show ?thesis by (simp add: RemoveRRset_Wildcard)
  qed
qed

lemma apply_ops_Wildcard_nonneg:
  "apply_ops U z ops = Inr z' \<Longrightarrow> 0 \<le> Wildcard z \<Longrightarrow> 0 \<le> Wildcard z'"
proof (induction ops arbitrary: z)
  case Nil
  then show ?case by simp
next
  case (Cons x xs)
  then show ?case
    by (auto split: sum.splits dest: apply_op_Wildcard_nonneg)
qed

text \<open>
  C5. The counter does not count the wildcard nodes: two records are inserted at
  \<open>*.example.com.\<close> (one node, counter 1) and one of them is removed again; the node is
  still in the tree, holding the other record, and the counter is 0.
\<close>

theorem Wildcard_undercounts:
  "map_sum id (\<lambda>z. (Wildcard z, wildcard_nodes z))
     (apply_ops U example_zone
        [(1, OpInsert (mk_rr ''*.example.com.'' 1 ''192.0.2.1'')),
         (2, OpInsert (mk_rr ''*.example.com.'' 28 ''2001:db8::1'')),
         (3, OpRemove (mk_rr ''*.example.com.'' 1 ''192.0.2.1''))])
   = Inr (0, 1)"
  by code_simp

subsection \<open>RemoveRRset\<close>

text \<open>
  On a node that is found, any type but RRSIG empties the map of RRsets; the node stays
  in the tree and no error is returned.
\<close>

lemma RemoveRRset_found:
  assumes "toRadixName U s = Inr key" and "map_of (Radix z) key = Some zd" and "t \<noteq> TypeRRSIG"
  shows "RemoveRRset U now z s t =
         Inr (z\<lparr>ModTime := now, Radix := AList.update key (zd\<lparr>RR := []\<rparr>) (Radix z)\<rparr>)"
  using assms by (simp add: RemoveRRset_def Let_def)

text \<open>
  C6. \<open>RemoveRRset\<close> with a type other than RRSIG empties the whole map of RRsets of the
  node: after an A and an MX record are inserted at \<open>www.example.com.\<close>, removing the
  RRset of type A (1) leaves the node without its MX RRset (15) as well.
\<close>

theorem RemoveRRset_clears_every_type:
  "map_sum id (\<lambda>z. map_option RR (map_of (Radix z) ''.com.example.www''))
     (apply_ops U example_zone
        [(1, OpInsert (mk_rr ''www.example.com.'' 1 ''192.0.2.1'')),
         (2, OpInsert (mk_rr ''www.example.com.'' 15 ''10 mail.example.com.'')),
         (3, OpRemoveRRset ''www.example.com.'' 1)])
   = Inr (Some [])
   \<and> map_sum id (\<lambda>z. map_option RR (map_of (Radix z) ''.com.example.www''))
     (apply_ops U example_zone
        [(1, OpInsert (mk_rr ''www.example.com.'' 1 ''192.0.2.1'')),
         (2, OpInsert (mk_rr ''www.example.com.'' 15 ''10 mail.example.com.''))])
   = Inr (Some [(1, [mk_rr ''www.example.com.'' 1 ''192.0.2.1'']),
                (15, [mk_rr ''www.example.com.'' 15 ''10 mail.example.com.''])])"
  by code_simp

subsection \<open>The canonical-name transform\<close>

text \<open>
  C4. The radix keys do not follow the canonical order when a label holds a byte below
  the dot, such as the hyphen: \<open>x.a.example.\<close> precedes \<open>a-b.example.\<close> in canonical
  order (the label \<open>a\<close> is a proper prefix of \<open>a-b\<close>), and its key \<open>.example.a.x\<close> is
  not below the key \<open>.example.a-b\<close>.
\<close>

theorem toRadixName_order_hyphen:
  "toRadixName U ''x.a.example.'' = Inr ''.example.a.x''
   \<and> toRadixName U ''a-b.example.'' = Inr ''.example.a-b''
   \<and> canonical_less ''x.a.example.'' ''a-b.example.''
   \<and> \<not> ((''.example.a.x'' :: string) < ''.example.a-b'')"
  by code_simp

text \<open>
  C10. \<open>toRadixName\<close> is not total: on the name \<open>a\\.\<close>, whose only dot is escaped, the
  loop finds no label boundary and the final slice of the empty string panics. The panic
  is reached through \<open>Find\<close>, \<open>Remove\<close> and \<open>RemoveName\<close> on every zone, and through
  \<open>Insert\<close> on the root zone, where every name passes the in-zone test.
\<close>

theorem toRadixName_panics_on_escaped_dot:
  "toRadixName U escaped_dot_name = Inl Panic
   \<and> Find U z escaped_dot_name = Inl Panic
   \<and> RemoveName U now z escaped_dot_name = Inl Panic
   \<and> Remove U now z (mk_rr escaped_dot_name 1 rdata) = Inl Panic
   \<and> Insert U now root_zone (mk_rr escaped_dot_name 1 rdata) = Inl Panic"
proof -
  have p: "toRadixName U escaped_dot_name = Inl Panic"
    by code_simp
  have sub: "isSubDomain U root_zone escaped_dot_name"
    by code_simp
  show ?thesis
    using p sub
    by (simp add: Find_def RemoveName_def Remove_def Insert_def mk_rr_def Let_def)
qed

subsection \<open>The signer\<close>

lemma quot_small: "0 \<le> a \<Longrightarrow> a < 2 * year68 \<Longrightarrow> quot a year68 - 1 \<le> 0"
proof -
  assume a: "0 \<le> a" "a < 2 * year68"
  have "\<bar>a\<bar> div \<bar>year68\<bar> \<le> 1"
    using a by (simp add: year68_def)
  moreover have "sgn a * sgn year68 \<le> 1" "0 \<le> sgn a * sgn year68"
    using a by (simp_all add: year68_def sgn_if)
  ultimately have "quot a year68 \<le> 1"
    unfolding quot_def
    using a by (cases "a = 0") (simp_all add: year68_def sgn_if)
  then show ?thesis by simp
qed

text \<open>
  Until the clock passes \<open>2^32\<close> seconds (the year 2106), \<open>uint32ToTime\<close> maps every
  value to the epoch, and the refresh test compares the age of the epoch with
  \<open>Refresh\<close>, whatever the expiration of the signature.
\<close>

lemma uint32ToTime_epoch:
  assumes "0 \<le> Unix clock" and "Unix clock < 2 ^ 32"
  shows "uint32ToTime clock t = 0"
proof -
  have "quot (Unix clock) year68 - 1 \<le> 0"
    using assms by (intro quot_small) (simp_all add: year68_def)
  then have "(if quot (Unix clock) year68 - 1 < 0 then 0 else quot (Unix clock) year68 - 1) = 0"
    by simp
  then show ?thesis
    by (simp add: uint32ToTime_def Let_def wrap64_def)
qed

lemma refresh_due_ignores_expiration:
  assumes "0 \<le> Unix now" and "Unix now < 2 ^ 32"
  shows "refresh_due now config q \<longleftrightarrow> sat64 now < Refresh config"
  using uint32ToTime_epoch [OF assms]
  by (simp add: refresh_due_def Sub_def)

text \<open>
  C1. A signature that expired long ago (expiration 1000 seconds after the epoch) and was
  made by the signing key is neither refreshed nor dropped by \<open>Sign\<close> at a clock reading
  of 1700000000 seconds with the default configuration: it is still the signature of
  the A RRset after the pass, and it is not valid then.
\<close>

theorem Sign_keeps_expired_signature:
  "map_sum id (\<lambda>n. lookup (Signatures n) 1)
     (Sign test_world test_now ''example.com.'' [(test_key, ''private'')] (\<lambda>k. 7)
        (newSignatureConfig 1) (test_node [test_sig 0 1000]))
   = Inr [test_sig 0 1000]
   \<and> \<not> rrsig_valid_at test_now (test_sig 0 1000)"
  by code_simp

text \<open>
  The key walk never reads \<open>HonorSepFlag\<close>: with the flag off, a key with the SEP bit
  (flags 257) still signs DNSKEY RRsets only, so at a node holding an A record it signs
  neither the A RRset nor the NSEC.
\<close>

lemma Sign_ignores_HonorSepFlag:
  "map_sum id (\<lambda>n. (lookup (Signatures n) 1, lookup (Signatures n) TypeNSEC))
     (Sign test_world test_now ''example.com.'' [(test_key\<lparr>Flags := 257\<rparr>, ''private'')] (\<lambda>k. 7)
        ((newSignatureConfig 1)\<lparr>HonorSepFlag := False\<rparr>) (test_node []))
   = Inr ([], [])"
  by code_simp

text \<open>
  C2. A signature of the signing key with one hour of lifetime left (less than the three
  days of \<open>Refresh\<close>) is not replaced: the signatures of the A RRset are unchanged by
  \<open>Sign\<close>.
\<close>

theorem Sign_does_not_refresh:
  "map_sum id (\<lambda>n. lookup (Signatures n) 1)
     (Sign test_world test_now ''example.com.'' [(test_key, ''private'')] (\<lambda>k. 7)
        (newSignatureConfig 1) (test_node [test_sig 1699000000 1700003600]))
   = Inr [test_sig 1699000000 1700003600]
   \<and> remaining_lifetime test_now (test_sig 1699000000 1700003600) = Hour
   \<and> Hour < Refresh (newSignatureConfig 1)"
  by code_simp

text \<open>
  The flag \<open>bitmapEqual\<close> says that every type present at the node is found in the
  stored bitmap, and nothing more; when it holds and the successor is the stored one,
  the NSEC record and its signatures are left alone.
\<close>

lemma bitmap_loop_flag:
  "snd (bitmap_loop True stored ts (bm, eq)) \<longleftrightarrow> eq \<and> list_all (bitmap_found stored) ts"
  by (induction ts arbitrary: bm eq) (auto simp: Let_def)

lemma Sign_nsec_unchanged:
  assumes "map_of (RR node) TypeNSEC = Some (RR_NSEC h next stored # rest)"
    and "list_all (bitmap_found stored) (map fst (RR node))"
  shows "Sign_nsec next config node = Inr node"
proof -
  obtain bm eq
    where l: "bitmap_loop True stored (map fst (RR node)) ([TypeNSEC, TypeRRSIG], True) = (bm, eq)"
    by (cases "bitmap_loop True stored (map fst (RR node)) ([TypeNSEC, TypeRRSIG], True)")
  with bitmap_loop_flag [of stored "map fst (RR node)" "[TypeNSEC, TypeRRSIG]" True] assms(2)
  have "eq" by simp
  with l assms(1) show ?thesis
    by (simp add: Sign_nsec_def haskey_def lookup_def)
qed

text \<open>
  C3. A stored bitmap that lists a type the node no longer has (here A, type 1) passes
  the comparison of \<open>Sign\<close>: the loop only looks for the present types in the stored
  bitmap. The NSEC record and its signature are left as they are although the computed
  bitmap differs from the stored one.
\<close>

theorem Sign_keeps_stale_bitmap:
  "Sign_nsec ''example.com.'' (newSignatureConfig 1) stale_nsec_node = Inr stale_nsec_node
   \<and> computed_bitmap (RR stale_nsec_node) = [TypeRRSIG, TypeNSEC]
   \<and> lookup (RR stale_nsec_node) TypeNSEC
       = [RR_NSEC (Header (hd (lookup (RR stale_nsec_node) TypeNSEC))) ''example.com.''
            [1, TypeRRSIG, TypeNSEC]]"
  by code_simp

text \<open>
  The two cases of a zone without SOA, for any configuration with a non-negative number
  of signer routines: no apex node gives \<open>ErrSoa\<close>, an apex node without SOA RRset
  gives a panic.
\<close>

lemma Zone_Sign_start_no_apex:
  assumes "toRadixName U (Origin z) = Inr key" and "map_of (Radix z) key = None"
    and "0 \<le> SignerRoutines config"
  shows "Zone_Sign_start U numcpu now z (Some config) = (z\<lparr>ModTime := now\<rparr>, Inl ErrSoa)"
  using assms by (simp add: Zone_Sign_start_def Let_def Radix_Find_def)

lemma Zone_Sign_start_no_SOA:
  assumes "toRadixName U (Origin z) = Inr key" and "map_of (Radix z) key = Some apex"
    and "map_of (RR apex) TypeSOA = None" and "0 \<le> SignerRoutines config"
  shows "snd (Zone_Sign_start U numcpu now z (Some config)) = Inl Panic"
  using assms by (simp add: Zone_Sign_start_def Let_def Radix_Find_def lookup_def)

text \<open>
  C7. On a zone whose apex node exists but holds no SOA RRset (here only an NS record),
  \<open>Zone.Sign\<close> does not return the error: it indexes the empty SOA RRset and panics. On
  a zone without apex node it returns \<open>ErrSoa\<close> and leaves the tree as it was.
\<close>

theorem Zone_Sign_apex_without_SOA:
  "map_sum id (\<lambda>z. snd (Zone_Sign_start U 4 2 z None))
     (apply_ops U example_zone [(1, OpInsert (mk_rr ''example.com.'' TypeNS ''ns.example.com.''))])
   = Inr (Inl Panic)
   \<and> Zone_Sign_start U 4 2 example_zone None = (example_zone\<lparr>ModTime := 2\<rparr>, Inl ErrSoa)"
  by code_simp

subsection \<open>The OPT record\<close>

text \<open>Four, two and eight bytes cut from a value, put together again, give the value.\<close>

lemma be16_bit:
  assumes "n < 16"
  shows "bit (be16 (ucast (drop_bit 8 v)) (ucast v)) n = bit (v :: uint16) n"
proof -
  consider (c0) "n < 8" | (c8) "8 \<le> n" "n < 16"
    using assms by linarith
  then show ?thesis
  proof cases
    case c0
    then show ?thesis by (auto simp: be16_def bit_simps)
  next
    case c8
    then have "n - 8 < 8" by simp
    with c8 show ?thesis by (auto simp: be16_def bit_simps)
  qed
qed

lemma be16_bytes:
  "be16 (ucast (drop_bit 8 v)) (ucast v) = (v :: uint16)"
  by (rule bit_word_eqI) (simp add: be16_bit)

lemma be32_bit:
  assumes "n < 32"
  shows "bit (be32 (ucast (drop_bit 24 v)) (ucast (drop_bit 16 v)) (ucast (drop_bit 8 v)) (ucast v)) n = bit (v :: uint32) n"
proof -
  consider (c0) "n < 8" | (c8) "8 \<le> n" "n < 16" | (c16) "16 \<le> n" "n < 24" | (c24) "24 \<le> n" "n < 32"
    using assms by linarith
  then show ?thesis
  proof cases
    case c0
    then show ?thesis by (auto simp: be32_def bit_simps)
  next
    case c8
    then have "n - 8 < 8" by simp
    with c8 show ?thesis by (auto simp: be32_def bit_simps)
  next
    case c16
    then have "n - 16 < 8" by simp
    with c16 show ?thesis by (auto simp: be32_def bit_simps)
  next
    case c24
    then have "n - 24 < 8" by simp
    with c24 show ?thesis by (auto simp: be32_def bit_simps)
  qed
qed

lemma be32_bytes:
  "be32 (ucast (drop_bit 24 v)) (ucast (drop_bit 16 v)) (ucast (drop_bit 8 v)) (ucast v) = (v :: uint32)"
  by (rule bit_word_eqI) (simp add: be32_bit)

lemma be64_bit:
  assumes "n < 64"
  shows "bit (be64 (ucast (drop_bit 56 v)) (ucast (drop_bit 48 v)) (ucast (drop_bit 40 v)) (ucast (drop_bit 32 v)) (ucast (drop_bit 24 v)) (ucast (drop_bit 16 v)) (ucast (drop_bit 8 v)) (ucast v)) n = bit (v :: uint64) n"
proof -
  consider (c0) "n < 8" | (c8) "8 \<le> n" "n < 16" | (c16) "16 \<le> n" "n < 24" | (c24) "24 \<le> n" "n < 32" | (c32) "32 \<le> n" "n < 40" | (c40) "40 \<le> n" "n < 48" | (c48) "48 \<le> n" "n < 56" | (c56) "56 \<le> n" "n < 64"
    using assms by linarith
  then show ?thesis
  proof cases
    case c0
    then show ?thesis by (auto simp: be64_def bit_simps)
  next
    case c8
    then have "n - 8 < 8" by simp
    with c8 show ?thesis by (auto simp: be64_def bit_simps)
  next
    case c16
    then have "n - 16 < 8" by simp
    with c16 show ?thesis by (auto simp: be64_def bit_simps)
  next
    case c24
    then have "n - 24 < 8" by simp
    with c24 show ?thesis by (auto simp: be64_def bit_simps)
  next
    case c32
    then have "n - 32 < 8" by simp
    with c32 show ?thesis by (auto simp: be64_def bit_simps)
  next
    case c40
    then have "n - 40 < 8" by simp
    with c40 show ?thesis by (auto simp: be64_def bit_simps)
  next
    case c48
    then have "n - 48 < 8" by simp
    with c48 show ?thesis by (auto simp: be64_def bit_simps)
  next
    case c56
    then have "n - 56 < 8" by simp
    with c56 show ?thesis by (auto simp: be64_def bit_simps)
  qed
qed

lemma be64_bytes:
  "be64 (ucast (drop_bit 56 v)) (ucast (drop_bit 48 v)) (ucast (drop_bit 40 v)) (ucast (drop_bit 32 v)) (ucast (drop_bit 24 v)) (ucast (drop_bit 16 v)) (ucast (drop_bit 8 v)) (ucast v) = (v :: uint64)"
  by (rule bit_word_eqI) (simp add: be64_bit)

lemma DO_bit_exp: "DO_bit = 2 ^ 7"
  by (simp add: DO_bit_def)

lemma DO_bit_iff: "bit DO_bit n \<longleftrightarrow> n = 7"
  unfolding DO_bit_exp bit_exp_iff by (auto simp: possible_bit_word)

lemma be32_DO_bit:
  assumes "n < 32"
  shows "bit (be32 (ucast (drop_bit 24 v)) (ucast (drop_bit 16 v)) (ucast (drop_bit 8 v) OR DO_bit) (ucast v)) n
         = (bit (v :: uint32) n \<or> n = 15)"
proof -
  consider (c0) "n < 8" | (c8) "8 \<le> n" "n < 16" | (c16) "16 \<le> n" "n < 24" | (c24) "24 \<le> n" "n < 32"
    using assms by linarith
  then show ?thesis
  proof cases
    case c0
    then show ?thesis by (auto simp: be32_def bit_simps)
  next
    case c8
    then have "n - 8 < 8" by simp
    moreover have "n - 8 = 7 \<longleftrightarrow> n = 15" using c8 by arith
    ultimately show ?thesis using c8 by (auto simp: be32_def bit_simps DO_bit_iff)
  next
    case c16
    then have "n - 16 < 8" by simp
    with c16 show ?thesis by (auto simp: be32_def bit_simps DO_bit_iff)
  next
    case c24
    then have "n - 24 < 8" by simp
    with c24 show ?thesis by (auto simp: be32_def bit_simps DO_bit_iff)
  qed
qed


text \<open>
  \<open>SetDo\<close> sets bit 15 of the ttl field and changes no other bit.
\<close>

lemma SetDo_bits:
  assumes "n < 32"
  shows "bit (Ttl (opt_Hdr (SetDo rr))) n = (bit (Ttl (opt_Hdr rr)) n \<or> n = 15)"
  using be32_DO_bit [OF assms] by (simp add: SetDo_def Let_def)

text \<open>
  C9. \<open>SetVersion\<close> clears the version byte of the ttl field but writes the new version
  into the lowest byte: on a ttl of 0, \<open>SetVersion 1\<close> gives the ttl 1, whose version
  byte (bits 16 to 23) is still 0 and whose bit 0, outside the version byte, has
  changed.
\<close>

theorem SetVersion_writes_low_byte:
  "Ttl (opt_Hdr (SetVersion (opt_with_ttl 0) 1)) = 1
   \<and> version_byte (Ttl (opt_Hdr (SetVersion (opt_with_ttl 0) 1))) = 0
   \<and> bit (Ttl (opt_Hdr (SetVersion (opt_with_ttl 0) 1))) 0"
  by code_simp

subsection \<open>The option codecs\<close>

text \<open>Hex digits: the two nibbles of a byte built from two digit values.\<close>

lemma low_mask: "(0x0f :: byte) = mask 4"
  by (simp add: mask_eq_exp_minus_1)

lemma nibble_hi:
  assumes "take_bit 4 a = a" and that: "take_bit 4 b = b"
  shows "drop_bit 4 (push_bit 4 a OR b) = (a :: byte)"
proof (rule bit_word_eqI)
  fix n :: nat
  assume n: "n < LENGTH(8)"
  have a: "bit a k \<Longrightarrow> k < 4" for k
    using assms(1) by (metis bit_take_bit_iff)
  have b: "bit b k \<Longrightarrow> k < 4" for k
    using that by (metis bit_take_bit_iff)
  show "bit (drop_bit 4 (push_bit 4 a OR b)) n = bit a n"
    using a [of n] b [of "4 + n"] by (auto simp: bit_simps)
qed

lemma nibble_lo:
  assumes "take_bit 4 b = b"
  shows "(push_bit 4 a OR b) AND 0x0f = (b :: byte)"
proof (rule bit_word_eqI)
  fix n :: nat
  assume n: "n < LENGTH(8)"
  have b: "bit b k \<Longrightarrow> k < 4" for k
    using assms by (metis bit_take_bit_iff)
  show "bit ((push_bit 4 a OR b) AND 0x0f) n = bit b n"
    unfolding low_mask using b [of n] by (auto simp: bit_simps)
qed

text \<open>
  \<open>keep_prefix n\<close> keeps bit \<open>k\<close> of byte \<open>j\<close> exactly when that bit is among the first
  \<open>n\<close> bits of the string, and the mask of \<open>net.CIDRMask\<close> applied with \<open>AND\<close> computes
  it.
\<close>

lemma prefix_byte_bit:
  assumes "k < 8"
  shows "bit (prefix_byte n b) k \<longleftrightarrow> bit b k \<and> 7 - k < n"
  using assms by (auto simp: prefix_byte_def bit_simps)

lemma keep_prefix_bit:
  assumes "j < length bs" and "k < 8"
  shows "bit (keep_prefix n bs ! j) k \<longleftrightarrow> bit (bs ! j) k \<and> 8 * j + (7 - k) < n"
  using assms
proof (induction bs arbitrary: n j)
  case Nil
  then show ?case by simp
next
  case (Cons b bs)
  show ?case
  proof (cases j)
    case 0
    with Cons.prems show ?thesis by (simp add: prefix_byte_bit)
  next
    case (Suc j')
    with Cons.prems have "bit (keep_prefix (n - 8) bs ! j') k \<longleftrightarrow> bit (bs ! j') k \<and> 8 * j' + (7 - k) < n - 8"
      by (intro Cons.IH) simp_all
    with Suc show ?thesis by (auto simp: less_diff_conv)
  qed
qed

lemma length_keep_prefix: "length (keep_prefix n bs) = length bs"
  by (induction bs arbitrary: n) simp_all

lemma byte_ff: "b AND (0xff :: byte) = b"
proof -
  have "(0xff :: byte) = - 1" by simp
  then show ?thesis by (simp only: and.right_neutral)
qed

lemma drop_ff: "drop_bit n (0xff :: byte) = mask (8 - n)"
proof -
  have "(0xff :: byte) = mask 8" by (simp add: mask_eq_exp_minus_1)
  moreover have "drop_bit n (mask 8 :: byte) = mask (8 - n)"
    by (rule bit_word_eqI) (auto simp: bit_simps)
  ultimately show ?thesis by (simp only:)
qed

lemma map2_CIDRMask_loop:
  "length x = l \<Longrightarrow> map2 (AND) x (CIDRMask_loop l n) = keep_prefix n x"
proof (induction x arbitrary: l n)
  case Nil
  then show ?case by simp
next
  case (Cons b bs)
  then obtain l' where l: "l = Suc l'" "length bs = l'" by (cases l) auto
  show ?case
  proof (cases "8 \<le> n")
    case True
    with l Cons.IH [OF l(2), of "n - 8"] show ?thesis
      by (simp add: prefix_byte_def byte_ff del: and_minus_numerals)
  next
    case False
    then have "n - 8 = 0" by simp
    with False l Cons.IH [OF l(2), of 0] show ?thesis
      by (simp add: prefix_byte_def drop_ff)
  qed
qed


lemma length_CIDRMask_loop: "length (CIDRMask_loop l n) = l"
  by (induction l n rule: CIDRMask_loop.induct) simp_all

lemma subnet_copy_upt:
  assumes "length a = k" and "length ip = k" and "k \<le> la" and "i \<le> k"
  shows "subnet_copy [i..<k] la a ip = Inr (take i ip @ drop i a)"
  using assms
proof (induction "k - i" arbitrary: i ip)
  case 0
  then show ?case by simp
next
  case (Suc d)
  then have i: "i < k" by simp
  have step: "subnet_copy [i..<k] la a ip = subnet_copy [Suc i..<k] la a (ip[i := a ! i])"
    using i Suc.prems by (simp add: upt_conv_Cons)
  have "subnet_copy [Suc i..<k] la a (ip[i := a ! i])
        = Inr (take (Suc i) (ip[i := a ! i]) @ drop (Suc i) a)"
    using Suc.hyps(2) i Suc.prems by (intro Suc.hyps(1)) simp_all
  also have "take (Suc i) (ip[i := a ! i]) = take i ip @ [a ! i]"
    using i Suc.prems by (simp add: take_Suc_conv_app_nth)
  finally show ?case
    using step i Suc.prems by (simp add: Cons_nth_drop_Suc)
qed

lemma subnet_copy_all:
  assumes "length a = k" and "k \<le> la"
  shows "subnet_copy [0..<k] la a (replicate k 0) = Inr a"
  using subnet_copy_upt [of a k "replicate k 0" la 0] assms by simp

lemma replicate10: "replicate 10 (0::byte) = [0, 0, 0, 0, 0, 0, 0, 0, 0, 0]"
  by code_simp

lemma list4: "length x = 4 \<Longrightarrow> x = [x ! 0, x ! 1, x ! 2, x ! 3]"
  by (auto simp: numeral_eq_Suc length_Suc_conv)

lemma unpackUint16_pack:
  "unpackUint16 (fst (packUint16 f) # snd (packUint16 f) # rest) 0 = f"
  using be16_bytes [of f] by (simp add: unpackUint16_def packUint16_def be16_def)

lemma fromHexChar_digits:
  "\<forall>c \<in> set hex_digits.
     (case fromHexChar c of
        None \<Rightarrow> False
      | Some a \<Rightarrow> take_bit 4 a = a \<and> hextable ! unat a = lower_byte c)"
  by code_simp

lemma fromHexChar_is_hex:
  assumes "is_hex c"
  shows "\<exists>a. fromHexChar c = Some a \<and> take_bit 4 a = a \<and> hextable ! unat a = lower_byte c"
proof -
  from assms have "c \<in> set hex_digits"
    by (simp add: is_hex_def)
  with fromHexChar_digits
  have "case fromHexChar c of None \<Rightarrow> False
        | Some a \<Rightarrow> take_bit 4 a = a \<and> hextable ! unat a = lower_byte c"
    by blast
  then show ?thesis
    by (cases "fromHexChar c") simp_all
qed

lemma hex_roundtrip_lower:
  "list_all is_hex s \<Longrightarrow> even (length s) \<Longrightarrow>
   \<exists>bs. hex_DecodeString s = Inr bs \<and> hex_EncodeToString bs = map lower_byte s"
proof (induction s rule: hex_DecodeString.induct)
  case 1
  then show ?case by simp
next
  case (2 p)
  then show ?case by simp
next
  case (3 p q rest)
  from 3(2) obtain a
    where a: "fromHexChar p = Some a" "take_bit 4 a = a" "hextable ! unat a = lower_byte p"
    using fromHexChar_is_hex [of p] by auto
  from 3(2) obtain b
    where b: "fromHexChar q = Some b" "take_bit 4 b = b" "hextable ! unat b = lower_byte q"
    using fromHexChar_is_hex [of q] by auto
  from 3(2,3) have "list_all is_hex rest" "even (length rest)" by simp_all
  with 3(1) [OF a(1) b(1)] obtain bs
    where bs: "hex_DecodeString rest = Inr bs" "hex_EncodeToString bs = map lower_byte rest"
    by auto
  have hi: "hextable ! unat (drop_bit 4 (push_bit 4 a OR b)) = lower_byte p"
    by (simp only: nibble_hi [OF a(2) b(2)] a(3))
  have lo: "hextable ! unat ((push_bit 4 a OR b) AND 0x0f) = lower_byte q"
    by (simp only: nibble_lo [OF b(2)] b(3))
  have "hex_DecodeString (p # q # rest) = Inr ((push_bit 4 a OR b) # bs)"
    using a(1) b(1) bs(1) by simp
  moreover have "hex_EncodeToString ((push_bit 4 a OR b) # bs) = map lower_byte (p # q # rest)"
    by (simp only: hex_EncodeToString.simps hi lo bs(2) list.map)
  ultimately show ?case by blast
qed

lemma NSID_roundtrip_lower:
  assumes "even (length (Nsid e))" and "list_all is_hex (Nsid e)"
  shows "\<exists>b. pack_NSID e = Inr b
           \<and> unpack_NSID e0 b = e\<lparr>nsid_Code := nsid_Code e0, Nsid := map lower_byte (Nsid e)\<rparr>"
proof -
  from hex_roundtrip_lower [OF assms(2,1)] obtain bs
    where bs: "hex_DecodeString (Nsid e) = Inr bs" "hex_EncodeToString bs = map lower_byte (Nsid e)"
    by blast
  have "e0\<lparr>Nsid := map lower_byte (Nsid e)\<rparr>
        = e\<lparr>nsid_Code := nsid_Code e0, Nsid := map lower_byte (Nsid e)\<rparr>"
    by (intro EDNS0_NSID.equality) simp_all
  with bs show ?thesis
    by (simp add: pack_NSID_def unpack_NSID_def)
qed

lemma To4_IPv4:
  assumes "length a = 4 \<or> (length a = 16 \<and> take 12 a = v4InV6Prefix)"
  shows "To4 a = drop (length a - 4) a"
  using assms
proof
  assume "length a = 4"
  then show ?thesis by (simp add: To4_def)
next
  assume m: "length a = 16 \<and> take 12 a = v4InV6Prefix"
  then have "a = v4InV6Prefix @ drop 12 a"
    using append_take_drop_id [of 12 a] by simp
  then obtain x where x: "a = v4InV6Prefix @ x" ..
  with m have "length x = 4" by (simp add: v4InV6Prefix_def)
  with x show ?thesis
    by (simp add: To4_def v4InV6Prefix_def replicate10)
qed

lemma CIDRMask_32:
  assumes "(n :: byte) \<le> 32"
  shows "CIDRMask (uint n) 32 = CIDRMask_loop 4 (unat n)"
proof -
  from assms have "uint n \<le> 32"
    by (simp add: word_le_def)
  then show ?thesis
    by (simp add: CIDRMask_def)
qed

lemma CIDRMask_128:
  assumes "(n :: byte) \<le> 128"
  shows "CIDRMask (uint n) 128 = CIDRMask_loop 16 (unat n)"
proof -
  from assms have "uint n \<le> 128"
    by (simp add: word_le_def)
  then show ?thesis
    by (simp add: CIDRMask_def)
qed

lemma subnet_receive:
  "e0\<lparr>Family := Family e, SourceNetmask := SourceNetmask e, SourceScope := SourceScope e,
       Address := a\<rparr>
   = (e :: EDNS0_SUBNET)\<lparr>subnet_Code := subnet_Code (e0 :: EDNS0_SUBNET), Address := a\<rparr>"
  by (intro EDNS0_SUBNET.equality) simp_all

lemma SUBNET_v4_normal:
  assumes "Family e = 1" and "SourceNetmask e \<le> 32"
    and "length (Address e) = 4 \<or> (length (Address e) = 16 \<and> take 12 (Address e) = v4InV6Prefix)"
  shows "\<exists>b. pack_SUBNET e = Inr b
           \<and> unpack_SUBNET e0 b
               = e\<lparr>subnet_Code := subnet_Code e0,
                    Address := v4InV6Prefix @
                      keep_prefix (unat (SourceNetmask e))
                        (drop (length (Address e) - 4) (Address e))\<rparr>"
proof -
  define x where "x = drop (length (Address e) - 4) (Address e)"
  define m where "m = keep_prefix (unat (SourceNetmask e)) x"
  have lx: "length x = 4"
    using assms(3) by (auto simp: x_def)
  have lm: "length m = 4"
    by (simp add: m_def length_keep_prefix lx)
  have la: "4 \<le> length (Address e)"
    using assms(3) by auto
  have to4: "To4 (Address e) = x"
    unfolding x_def by (rule To4_IPv4 [OF assms(3)])
  have msk: "Mask x (CIDRMask (uint (SourceNetmask e)) 32) = m"
    using lx by (simp add: Mask_def CIDRMask_32 [OF assms(2)] length_CIDRMask_loop
        map2_CIDRMask_loop m_def)
  have cp: "subnet_copy [0..<4] (length (Address e)) m (replicate 4 0) = Inr m"
    using subnet_copy_all [of m 4 "length (Address e)"] lm la by simp
  have nm: "\<not> 32 < SourceNetmask e"
    using assms(2) by simp
  have p: "pack_SUBNET e =
        Inr (fst (packUint16 (Family e)) # snd (packUint16 (Family e)) # SourceNetmask e # SourceScope e # m)"
    using assms(1) nm by (simp add: pack_SUBNET_def to4 msk cp)
  have m4: "m = [m ! 0, m ! 1, m ! 2, m ! 3]"
    by (rule list4 [OF lm])
  have a4: "IPv4 (m ! 0) (m ! 1) (m ! 2) (m ! 3) = v4InV6Prefix @ m"
    using m4 by (simp add: IPv4_def)
  have "unpack_SUBNET e0
          (fst (packUint16 (Family e)) # snd (packUint16 (Family e)) # SourceNetmask e # SourceScope e # m) =
        e0\<lparr>Family := Family e, SourceNetmask := SourceNetmask e,
           SourceScope := SourceScope e, Address := IPv4 (m ! 0) (m ! 1) (m ! 2) (m ! 3)\<rparr>"
    using assms(1) lm by (simp add: unpack_SUBNET_def unpackUint16_pack Let_def)
  also have "\<dots> = e\<lparr>subnet_Code := subnet_Code e0, Address := v4InV6Prefix @ m\<rparr>"
    unfolding a4 by (rule subnet_receive)
  finally show ?thesis
    using p unfolding m_def x_def by blast
qed

lemma SUBNET_v6_normal:
  assumes "Family e = 2" and "SourceNetmask e \<le> 128" and "length (Address e) = 16"
  shows "\<exists>b. pack_SUBNET e = Inr b
           \<and> unpack_SUBNET e0 b
               = e\<lparr>subnet_Code := subnet_Code e0,
                    Address := keep_prefix (unat (SourceNetmask e)) (Address e)\<rparr>"
proof -
  define m where "m = keep_prefix (unat (SourceNetmask e)) (Address e)"
  have lm: "length m = 16"
    by (simp add: m_def length_keep_prefix assms(3))
  have msk: "Mask (Address e) (CIDRMask (uint (SourceNetmask e)) 128) = m"
    using assms(3) by (simp add: Mask_def CIDRMask_128 [OF assms(2)] length_CIDRMask_loop
        map2_CIDRMask_loop m_def)
  have cp: "subnet_copy [0..<16] (length (Address e)) m (replicate 16 0) = Inr m"
    using subnet_copy_all [of m 16 "length (Address e)"] lm assms(3) by simp
  have nm: "\<not> 128 < SourceNetmask e"
    using assms(2) by simp
  have p: "pack_SUBNET e =
        Inr (fst (packUint16 (Family e)) # snd (packUint16 (Family e)) # SourceNetmask e # SourceScope e # m)"
    using assms(1) nm by (simp add: pack_SUBNET_def msk cp)
  have m': "map ((!) m) [0..<16] = m"
    using map_nth [of m] lm by simp
  have "unpack_SUBNET e0
          (fst (packUint16 (Family e)) # snd (packUint16 (Family e)) # SourceNetmask e # SourceScope e # m) =
        e0\<lparr>Family := Family e, SourceNetmask := SourceNetmask e,
           SourceScope := SourceScope e, Address := m\<rparr>"
    using assms(1) lm m' by (simp add: unpack_SUBNET_def unpackUint16_pack Let_def)
  also have "\<dots> = e\<lparr>subnet_Code := subnet_Code e0, Address := m\<rparr>"
    by (rule subnet_receive)
  finally show ?thesis
    using p unfolding m_def by blast
qed

lemma UPDATE_LEASE_receive:
  "\<exists>b. pack_UPDATE_LEASE e = Inr b \<and> unpack_UPDATE_LEASE e0 b = Inr (e\<lparr>ul_Code := ul_Code e0\<rparr>)"
proof -
  have "e0\<lparr>Lease := Lease e\<rparr> = e\<lparr>ul_Code := ul_Code e0\<rparr>"
    by (intro EDNS0_UPDATE_LEASE.equality) simp_all
  then show ?thesis
    by (simp add: pack_UPDATE_LEASE_def unpack_UPDATE_LEASE_def be32_bytes)
qed

lemma LLQ_receive:
  "\<exists>b. pack_LLQ e = Inr b \<and> unpack_LLQ e0 b = Inr (e\<lparr>llq_Code := llq_Code e0\<rparr>)"
proof -
  have "e0\<lparr>llq_Version := llq_Version e, LLQOpcode := LLQOpcode e, ErrorCode := ErrorCode e,
           LLQID := LLQID e, LeaseLife := LeaseLife e\<rparr> = e\<lparr>llq_Code := llq_Code e0\<rparr>"
    by (intro EDNS0_LLQ.equality) simp_all
  then show ?thesis
    by (simp add: pack_LLQ_def unpack_LLQ_def be16_bytes be32_bytes be64_bytes)
qed

lemma roundtrip_to_normal_form:
  assumes "recognized e" and "same_kind e0 e"
  shows "\<exists>b. pack e = Inr b \<and> unpack e0 b = Inr (with_Code_of e0 (normal_form e))"
proof (cases e)
  case (NSID x)
  with assms(2) obtain y where y: "e0 = NSID y"
    by (cases e0) simp_all
  from NSID assms(1) have "even (length (Nsid x))" "list_all is_hex (Nsid x)"
    by simp_all
  from NSID_roundtrip_lower [OF this, of y] show ?thesis
    by (auto simp: NSID y)
next
  case (SUBNET x)
  with assms(2) obtain y where y: "e0 = SUBNET y"
    by (cases e0) simp_all
  from SUBNET assms(1) consider
      (v4) "Family x = 1" "SourceNetmask x \<le> 32"
           "length (Address x) = 4 \<or> (length (Address x) = 16 \<and> take 12 (Address x) = v4InV6Prefix)"
    | (v6) "Family x = 2" "SourceNetmask x \<le> 128" "length (Address x) = 16"
    by auto
  then show ?thesis
  proof cases
    case v4
    from SUBNET_v4_normal [OF v4, of y] v4(1) show ?thesis
      by (auto simp: SUBNET y)
  next
    case v6
    from SUBNET_v6_normal [OF v6, of y] v6(1) show ?thesis
      by (auto simp: SUBNET y)
  qed
next
  case (UPDATE_LEASE x)
  with assms(2) obtain y where y: "e0 = UPDATE_LEASE y"
    by (cases e0) simp_all
  from UPDATE_LEASE_receive [of x y] show ?thesis
    by (auto simp: UPDATE_LEASE y)
next
  case (LLQ x)
  with assms(2) obtain y where y: "e0 = LLQ y"
    by (cases e0) simp_all
  from LLQ_receive [of x y] show ?thesis
    by (auto simp: LLQ y)
qed


text \<open>
  The round trip is the identity on an option that is in normal form and is unpacked
  into a receiver with the same \<open>Code\<close>; UPDATE-LEASE and LLQ options are always in
  normal form.
\<close>

lemma roundtrip_identity:
  assumes "recognized e" and "same_kind e0 e" and "with_Code_of e0 (normal_form e) = e"
  shows "\<exists>b. pack e = Inr b \<and> unpack e0 b = Inr e"
  using roundtrip_to_normal_form [OF assms(1,2)] assms(3) by simp

text \<open>
  C8, as the claim states it, fails: packing masks the address of a client-subnet
  option, so 192.0.2.77/24 comes back as 192.0.2.0/24, and packing an NSID decodes its
  hex text, which comes back in lowercase.
\<close>

theorem option_roundtrip_counterexample:
  "pack (SUBNET subnet_example) = Inr [0, 1, 24, 0, 192, 0, 2, 0]
   \<and> unpack (SUBNET subnet_example) [0, 1, 24, 0, 192, 0, 2, 0] = Inr (SUBNET subnet_masked)
   \<and> SUBNET subnet_masked \<noteq> SUBNET subnet_example
   \<and> pack (NSID nsid_upper) = Inr [0xAB]
   \<and> unpack (NSID nsid_upper) [0xAB] = Inr (NSID (nsid_upper\<lparr>Nsid := ''ab''\<rparr>))
   \<and> NSID (nsid_upper\<lparr>Nsid := ''ab''\<rparr>) \<noteq> NSID nsid_upper"
  by code_simp

text \<open>
  C8, amended. For every recognized option, packing succeeds, and unpacking the bytes
  into any option of the same kind gives the normal form of the original option (the
  subnet address cut to the source netmask and at full width, the NSID text in
  lowercase, every other field as in the original) with the \<open>Code\<close> of the receiver.
\<close>

theorem option_roundtrip_normal_form:
  assumes "recognized e" and "same_kind e0 e"
  shows "\<exists>b. pack e = Inr b \<and> unpack e0 b = Inr (with_Code_of e0 (normal_form e))"
  using assms by (rule roundtrip_to_normal_form)

theorem option_roundtrip_normal_form_witness:
  "recognized (SUBNET subnet_To4)
   \<and> same_kind (SUBNET zero_SUBNET) (SUBNET subnet_To4)
   \<and> pack (SUBNET subnet_To4) = Inr [0, 1, 24, 0, 192, 0, 2, 0]
   \<and> unpack (SUBNET zero_SUBNET) [0, 1, 24, 0, 192, 0, 2, 0]
       = Inr (SUBNET \<lparr>subnet_Code = 0, Family = 1, SourceNetmask = 24, SourceScope = 0,
                       Address = IPv4 192 0 2 0\<rparr>)"
proof -
  have r: "recognized (SUBNET subnet_To4)"
    by code_simp
  have k: "same_kind (SUBNET zero_SUBNET) (SUBNET subnet_To4)"
    by code_simp
  have p: "pack (SUBNET subnet_To4) = Inr [0, 1, 24, 0, 192, 0, 2, 0]"
    by code_simp
  have nf: "with_Code_of (SUBNET zero_SUBNET) (normal_form (SUBNET subnet_To4))
            = SUBNET \<lparr>subnet_Code = 0, Family = 1, SourceNetmask = 24, SourceScope = 0,
                       Address = IPv4 192 0 2 0\<rparr>"
    by code_simp
  from option_roundtrip_normal_form [OF r k] p
  have "unpack (SUBNET zero_SUBNET) [0, 1, 24, 0, 192, 0, 2, 0]
        = Inr (with_Code_of (SUBNET zero_SUBNET) (normal_form (SUBNET subnet_To4)))"
    by auto
  with r k p nf show ?thesis by simp
qed

end
